theory Spec2Isabelle
  imports Main "HOL-Library.Finite_Map"
begin

section \<open>The type-checker's objects, as the IR builder reads them\<close>

text \<open>
  The package go/types is an external collaborator.  Its types are rendered as a datatype
  whose equality stands for \<^verbatim>\<open>types.IsIdentical\<close>; a named type carries its underlying
  type, which go/types keeps resolved (never itself named).  A variable of a tuple (a
  field, a parameter, a result) is a pair of its name and its type.  Source positions
  serve diagnostics only and are left out throughout.
\<close>

datatype basic_kind =
    Invalid | Bool | IntKind | Int8 | Int16 | Int32 | Int64
  | Uint | Uint8 | Uint16 | Uint32 | Uint64 | Uintptr
  | Float32 | Float64 | Complex64 | Complex128 | String | UnsafePointer
  | UntypedBool | UntypedInt | UntypedRune | UntypedFloat | UntypedComplex
  | UntypedString | UntypedNil

datatype ty =
    Basic basic_kind
  | Pointer ty
  | Struct "(string \<times> ty) list"
  | Interface "string list"
  | Chan ty
  | Slice ty
  | Tuple "(string \<times> ty) list"
  | Signature "(string \<times> ty) option" "(string \<times> ty) list" "(string \<times> ty) list" bool
  | Named string ty

type_synonym var = "string \<times> ty"

text \<open>\<^verbatim>\<open>Basic.Info()\<close>: the flags the emitter tests.\<close>

fun IsBoolean :: "basic_kind \<Rightarrow> bool" where
  "IsBoolean Bool = True"
| "IsBoolean UntypedBool = True"
| "IsBoolean _ = False"

fun IsUnsigned :: "basic_kind \<Rightarrow> bool" where
  "IsUnsigned Uint = True"
| "IsUnsigned Uint8 = True"
| "IsUnsigned Uint16 = True"
| "IsUnsigned Uint32 = True"
| "IsUnsigned Uint64 = True"
| "IsUnsigned Uintptr = True"
| "IsUnsigned _ = False"

fun IsUntyped :: "basic_kind \<Rightarrow> bool" where
  "IsUntyped UntypedBool = True"
| "IsUntyped UntypedInt = True"
| "IsUntyped UntypedRune = True"
| "IsUntyped UntypedFloat = True"
| "IsUntyped UntypedComplex = True"
| "IsUntyped UntypedString = True"
| "IsUntyped UntypedNil = True"
| "IsUntyped _ = False"

fun Underlying :: "ty \<Rightarrow> ty" where
  "Underlying (Named n u) = u"
| "Underlying t = t"

fun isInterface :: "ty \<Rightarrow> bool" where
  "isInterface (Interface ms) = True"
| "isInterface _ = False"

fun isBasic :: "ty \<Rightarrow> bool" where
  "isBasic (Basic k) = True"
| "isBasic _ = False"

text \<open>
  Modelled from the spec: \<^verbatim>\<open>isPointer\<close> and \<^verbatim>\<open>deref\<close> (the package's util.go) are
  not among the sources.  A type is a pointer when its underlying type is one; \<open>deref\<close>
  gives the pointee of a pointer and any other type unchanged (section 4.3, load: "addr
  must be pointer-typed; result type = pointee type").
\<close>

definition isPointer :: "ty \<Rightarrow> bool" where
  "isPointer t = (case Underlying t of Pointer e \<Rightarrow> True | _ \<Rightarrow> False)"

definition deref :: "ty \<Rightarrow> ty" where
  "deref t = (case Underlying t of Pointer e \<Rightarrow> e | _ \<Rightarrow> t)"

definition tBool :: ty where
  "tBool = Basic Bool"

definition tUntypedNil :: ty where
  "tUntypedNil = Basic UntypedNil"

text \<open>\<^verbatim>\<open>DefaultType\<close>: an untyped basic type becomes its natural typed one (rune is int32).\<close>

fun DefaultType :: "ty \<Rightarrow> ty" where
  "DefaultType (Basic UntypedBool) = Basic Bool"
| "DefaultType (Basic UntypedInt) = Basic IntKind"
| "DefaultType (Basic UntypedRune) = Basic Int32"
| "DefaultType (Basic UntypedFloat) = Basic Float64"
| "DefaultType (Basic UntypedComplex) = Basic Complex128"
| "DefaultType (Basic UntypedString) = Basic String"
| "DefaultType t = t"

text \<open>
  A signature (\<^verbatim>\<open>*types.Signature\<close>) and a method object (\<^verbatim>\<open>*types.Func\<close>): its
  name, its package and its signature.  \<open>Id_of\<close> is the stable method identifier: the
  bare name when exported, the name qualified by the package path otherwise.
\<close>

record signature =
  sigRecv :: "var option"
  sigParams :: "var list"
  sigResults :: "var list"
  IsVariadic :: bool

definition sigType :: "signature \<Rightarrow> ty" where
  "sigType s = Signature (sigRecv s) (sigParams s) (sigResults s) (IsVariadic s)"

record Func =
  fname :: string
  fpkg :: string
  ftype :: signature

definition isExported :: "string \<Rightarrow> bool" where
  "isExported n = (case n of [] \<Rightarrow> False
     | c # cs \<Rightarrow> 65 \<le> (of_char c :: nat) \<and> (of_char c :: nat) \<le> 90)"

definition Id_of :: "Func \<Rightarrow> string" where
  "Id_of obj = (if isExported (fname obj) then fname obj else fpkg obj @ ''.'' @ fname obj)"

text \<open>A selection: the receiver type, the method object and the embedding-index path.\<close>

record Selection =
  Recv :: ty
  Obj :: Func
  Index :: "nat list"

section \<open>The IR graph\<close>

datatype token =
    ADD | SUB | MUL | QUO | REM | AND | OR | XOR | SHL | SHR | AND_NOT
  | LAND | LOR | ARROW | EQL | LSS | GTR | NOT | NEQ | LEQ | GEQ

datatype cval = NilV | BoolV bool | IntV int | StringV string

datatype synthetic =
    NotSynthetic
  | WrapperFor Func
  | InterfaceMethodWrapperFor ty Func
  | BoundMethodWrapperFor Func

text \<open>
  A constant (\<^verbatim>\<open>*Const\<close>) is a heap object, and the sources compare constants by
  identity in one place: against the package's shared object \<^verbatim>\<open>vTrue\<close>, in
  \<^verbatim>\<open>emitCompare\<close>.  So a constant carries which object it is, as far as the sources can
  tell: the shared true constant (\<open>SharedTrue\<close>), made once when the package is
  initialised, or an object that a call of \<^verbatim>\<open>NewConst\<close> allocated (\<open>Allocated\<close>).  A newly
  allocated constant is never the shared object, whatever its value and type.
\<close>

datatype constId = SharedTrue | Allocated

text \<open>
  A value is a constant, a parameter, a capture, a function or the result of an
  instruction; each carries its one static type.  Functions live in the program's arena
  and are referred to by their index there, so that two references are the same instance
  exactly when the indices agree; the reference carries the function's signature as its
  type.  Object identity of the values that are neither constants nor functions is never
  tested by the sources modelled here and is rendered as equality of terms.
\<close>

datatype val =
    Const constId cval ty
  | Parameter string ty
  | Capture string ty
  | FunctionV nat ty
  | Alloc bool string ty
  | UnOp token val ty
  | BinOp token val val ty
  | FieldAddr val nat ty
  | Field val nat ty
  | ChangeType val ty
  | ChangeInterface val ty
  | MakeInterface val ty
  | Convert val ty
  | Call val "Func option" "val list" ty
  | Extract val nat ty

datatype instr =
    Def val
  | Store val val
  | Return "val list"

fun Type :: "val \<Rightarrow> ty" where
  "Type (Const i c t) = t"
| "Type (Parameter n t) = t"
| "Type (Capture n t) = t"
| "Type (FunctionV p t) = t"
| "Type (Alloc h c t) = t"
| "Type (UnOp op x t) = t"
| "Type (BinOp op x y t) = t"
| "Type (FieldAddr x i t) = t"
| "Type (Field x i t) = t"
| "Type (ChangeType x t) = t"
| "Type (ChangeInterface x t) = t"
| "Type (MakeInterface x t) = t"
| "Type (Convert x t) = t"
| "Type (Call v m args t) = t"
| "Type (Extract x i t) = t"

fun isConst :: "val \<Rightarrow> bool" where
  "isConst (Const i c t) = True"
| "isConst _ = False"

definition NewConst :: "cval \<Rightarrow> ty \<Rightarrow> val" where
  "NewConst c t = Const Allocated c t"

definition nilConst :: "ty \<Rightarrow> val" where
  "nilConst t = NewConst NilV t"

definition vTrue :: val where
  "vTrue = Const SharedTrue (BoolV True) tBool"

text \<open>
  A panic is a value: the two explicit ones of the sources, and the run-time panics of
  Go that the sources can reach (a nil dereference, a failed type assertion, an index or
  slice bound out of range).
\<close>

datatype error =
    NoConcreteMethod Func
  | IllegalOp token
  | NilDereference
  | TypeAssertion
  | IndexOutOfRange

text \<open>
  A function under construction.  \<open>FSignature\<close> and \<open>fmethod\<close> are the fields \<^verbatim>\<open>Signature\<close> and
  \<^verbatim>\<open>method\<close>; a block is
  its instruction list, and \<open>currentBlock\<close> is the index of the one open block, if any.
  \<open>needsMethods\<close> stands for the owning package's record of the types whose method sets
  a \<^verbatim>\<open>MakeInterface\<close> requires.
\<close>

record Function =
  name :: string
  fmethod :: "Selection option"
  object :: "Func option"
  FSignature :: signature
  Synthetic :: synthetic
  Params :: "val list"
  FreeVars :: "val list"
  Locals :: "val list"
  Blocks :: "instr list list"
  currentBlock :: "nat option"
  needsMethods :: "ty list"

definition bindE :: "error + 'a \<Rightarrow> ('a \<Rightarrow> error + 'b) \<Rightarrow> error + 'b" where
  "bindE m k = (case m of Inl e \<Rightarrow> Inl e | Inr x \<Rightarrow> k x)"

lemma bindE_Inl [simp]: "bindE (Inl e) k = Inl e"
  by (simp add: bindE_def)

lemma bindE_Inr [simp]: "bindE (Inr x) k = k x"
  by (simp add: bindE_def)

lemma bindE_cong [fundef_cong]:
  "m = m' \<Longrightarrow> (\<And>x. m' = Inr x \<Longrightarrow> k x = k' x) \<Longrightarrow> bindE m k = bindE m' k'"
  by (cases m') (simp_all add: bindE_def)

section \<open>The instruction emitter\<close>

text \<open>
  Modelled from the spec: \<^verbatim>\<open>Function.emit\<close> (func.go) is not among the sources.  It
  appends the instruction to the open block (section 3: "at most one block per function
  is open for appending at any time"); with no open block the Go code dereferences nil.
\<close>

definition emit :: "Function \<Rightarrow> instr \<Rightarrow> error + Function" where
  "emit f i =
     (case currentBlock f of
        None \<Rightarrow> Inl NilDereference
      | Some b \<Rightarrow>
          if b < length (Blocks f)
          then Inr (f\<lparr>Blocks := (Blocks f)[b := Blocks f ! b @ [i]]\<rparr>)
          else Inl NilDereference)"

text \<open>An instruction that is a value is emitted and returned.\<close>

definition emitV :: "Function \<Rightarrow> val \<Rightarrow> error + (val \<times> Function)" where
  "emitV f v = bindE (emit f (Def v)) (\<lambda>f'. Inr (v, f'))"

definition emitLoad :: "Function \<Rightarrow> val \<Rightarrow> error + (val \<times> Function)" where
  "emitLoad f addr = emitV f (UnOp MUL addr (deref (Type addr)))"

fun isValuePreserving :: "ty \<Rightarrow> ty \<Rightarrow> bool" where
  "isValuePreserving ut_src ut_dst =
     (if ut_dst = ut_src then True
      else case ut_dst of
          Chan e \<Rightarrow> (case ut_src of Chan e' \<Rightarrow> True | _ \<Rightarrow> False)
        | Pointer e \<Rightarrow> (case ut_src of Pointer e' \<Rightarrow> True | _ \<Rightarrow> False)
        | Signature r ps rs v \<Rightarrow> (case ut_src of Signature r' ps' rs' v' \<Rightarrow> True | _ \<Rightarrow> False)
        | _ \<Rightarrow> False)"

text \<open>
  Modelled from the spec: \<^verbatim>\<open>needMethodsOf\<close> (builder.go) is not among the sources; boxing
  "registers that concrete type's method set as required" (section 4.3).
\<close>

definition needMethodsOf :: "Function \<Rightarrow> ty \<Rightarrow> Function" where
  "needMethodsOf f t = f\<lparr>needsMethods := needsMethods f @ [t]\<rparr>"

definition isUntypedBasic :: "ty \<Rightarrow> bool" where
  "isUntypedBasic t = (case t of Basic k \<Rightarrow> IsUntyped k | _ \<Rightarrow> False)"

lemma DefaultType_Basic_not_interface:
  "\<not> isInterface (Underlying (DefaultType (Basic k)))"
  by (cases k) simp_all

function emitConv :: "Function \<Rightarrow> val \<Rightarrow> ty \<Rightarrow> error + (val \<times> Function)" where
  "emitConv f v typ =
     (if Type v = typ then Inr (v, f)
      else if isValuePreserving (Underlying (Type v)) (Underlying typ)
      then emitV f (ChangeType v typ)
      else if isInterface (Underlying typ)
      then (if isInterface (Underlying (Type v)) then emitV f (ChangeInterface v typ)
            else if Underlying (Type v) = tUntypedNil then Inr (nilConst typ, f)
            else bindE (if isUntypedBasic (Underlying (Type v))
                        then emitConv f v (DefaultType (Underlying (Type v)))
                        else Inr (v, f))
                   (\<lambda>(v', f'). emitV (needMethodsOf f' (Type v')) (MakeInterface v' typ)))
      else (case v of
              Const i c t \<Rightarrow> Inr (NewConst c typ, f)
            | _ \<Rightarrow> emitV f (Convert v typ)))"
  by pat_completeness auto
termination
proof (relation "measure (\<lambda>(f, v, typ). if isInterface (Underlying typ) then 1 else 0)")
  show "wf (measure (\<lambda>(f, v, typ). if isInterface (Underlying typ) then 1 else (0::nat)))"
    by simp
next
  fix f :: Function and v :: val and t :: ty
  assume "isInterface (Underlying t)" and "isUntypedBasic (Underlying (Type v))"
  then show "((f, v, DefaultType (Underlying (Type v))), f, v, t)
      \<in> measure (\<lambda>(f, v, typ). if isInterface (Underlying typ) then 1 else 0)"
    by (cases "Underlying (Type v)")
       (simp_all add: isUntypedBasic_def DefaultType_Basic_not_interface)
qed

declare emitConv.simps [simp del]

definition isShift :: "token \<Rightarrow> bool" where
  "isShift op = (op = SHL \<or> op = SHR)"

definition isEagerArith :: "token \<Rightarrow> bool" where
  "isEagerArith op = (op \<in> {ADD, SUB, MUL, QUO, REM, AND, OR, XOR, AND_NOT})"

text \<open>The test of the shift count: its underlying type is basic and not flagged unsigned.\<close>

definition notUnsignedBasic :: "ty \<Rightarrow> bool" where
  "notUnsignedBasic t = (case Underlying t of Basic k \<Rightarrow> \<not> IsUnsigned k | _ \<Rightarrow> False)"

definition emitArith ::
  "Function \<Rightarrow> token \<Rightarrow> val \<Rightarrow> val \<Rightarrow> ty \<Rightarrow> error + (val \<times> Function)" where
  "emitArith f op x y t =
     (if isShift op then
        bindE (emitConv f x t) (\<lambda>(x', f1).
        bindE (if notUnsignedBasic (Type y) then emitConv f1 y (Basic Uint64) else Inr (y, f1))
          (\<lambda>(y', f2). emitV f2 (BinOp op x' y' t)))
      else if isEagerArith op then
        bindE (emitConv f x t) (\<lambda>(x', f1).
        bindE (emitConv f1 y t) (\<lambda>(y', f2). emitV f2 (BinOp op x' y' t)))
      else Inl (IllegalOp op))"

definition isBooleanBasic :: "ty \<Rightarrow> bool" where
  "isBooleanBasic t = (case t of Basic k \<Rightarrow> IsBoolean k | _ \<Rightarrow> False)"

definition emitCompare ::
  "Function \<Rightarrow> token \<Rightarrow> val \<Rightarrow> val \<Rightarrow> error + (val \<times> Function)" where
  "emitCompare f op x y =
     (let xt = Underlying (Type x); yt = Underlying (Type y) in
      if x = vTrue \<and> op = EQL \<and> isBooleanBasic yt then Inr (y, f)
      else
        bindE (if xt = yt then Inr ((x, y), f)
               else if isInterface xt then
                 bindE (emitConv f y (Type x)) (\<lambda>(y', f'). Inr ((x, y'), f'))
               else if isInterface yt then
                 bindE (emitConv f x (Type y)) (\<lambda>(x', f'). Inr ((x', y), f'))
               else if isConst x then
                 bindE (emitConv f x (Type y)) (\<lambda>(x', f'). Inr ((x', y), f'))
               else if isConst y then
                 bindE (emitConv f y (Type x)) (\<lambda>(y', f'). Inr ((x, y'), f'))
               else Inr ((x, y), f))
          (\<lambda>((x', y'), f'). emitV f' (BinOp op x' y' tBool)))"

definition emitStore :: "Function \<Rightarrow> val \<Rightarrow> val \<Rightarrow> error + Function" where
  "emitStore f addr v =
     bindE (emitConv f v (deref (Type addr))) (\<lambda>(v', f'). emit f' (Store addr v'))"

definition emitExtract :: "Function \<Rightarrow> val \<Rightarrow> nat \<Rightarrow> error + (val \<times> Function)" where
  "emitExtract f tuple index =
     (case Type tuple of
        Tuple vars \<Rightarrow>
          if index < length vars then emitV f (Extract tuple index (snd (vars ! index)))
          else Inl IndexOutOfRange
      | _ \<Rightarrow> Inl TypeAssertion)"

text \<open>The loop of \<^verbatim>\<open>emitTailCall\<close> over the tuple's components.\<close>

fun extractResults ::
  "Function \<Rightarrow> val \<Rightarrow> nat list \<Rightarrow> val list \<Rightarrow> error + (val list \<times> Function)" where
  "extractResults f tuple [] results = Inr (results, f)"
| "extractResults f tuple (i # rest) results =
     bindE (emitExtract f tuple i) (\<lambda>(v, f'). extractResults f' tuple rest (results @ [v]))"

text \<open>
  The caller fills the call's value, method and arguments; \<^verbatim>\<open>emitTailCall\<close> sets its
  type.
\<close>

definition emitTailCall ::
  "Function \<Rightarrow> val \<Rightarrow> Func option \<Rightarrow> val list \<Rightarrow> error + Function" where
  "emitTailCall f callValue callMethod callArgs =
     (let tresults = sigResults (FSignature f);
          nr = length tresults;
          call = Call callValue callMethod callArgs
                   (if nr = 1 then snd (tresults ! 0) else Tuple tresults)
      in bindE (emitV f call) (\<lambda>(tuple, f1).
         bindE (if nr = 0 then Inr ([], f1)
                else if nr = 1 then Inr ([tuple], f1)
                else extractResults f1 tuple [0..<nr] [])
           (\<lambda>(results, f2).
         bindE (emit f2 (Return results)) (\<lambda>f3. Inr (f3\<lparr>currentBlock := None\<rparr>)))))"

fun emitImplicitSelections ::
  "Function \<Rightarrow> val \<Rightarrow> nat list \<Rightarrow> error + (val \<times> Function)" where
  "emitImplicitSelections f v [] = Inr (v, f)"
| "emitImplicitSelections f v (index # rest) =
     (case Underlying (deref (Type v)) of
        Struct flds \<Rightarrow>
          if index < length flds then
            (let fld = snd (flds ! index) in
             if isPointer (Type v) then
               bindE (emitV f (FieldAddr v index (Pointer fld))) (\<lambda>(v1, f1).
               bindE (if isPointer fld then emitLoad f1 v1 else Inr (v1, f1))
                 (\<lambda>(v2, f2). emitImplicitSelections f2 v2 rest))
             else
               bindE (emitV f (Field v index fld))
                 (\<lambda>(v1, f1). emitImplicitSelections f1 v1 rest))
          else Inl IndexOutOfRange
      | _ \<Rightarrow> Inl TypeAssertion)"

section \<open>Wrapper synthesis\<close>

text \<open>
  The program owns the arena of functions and the memo tables.  A \<^verbatim>\<open>*Function\<close> is an
  index into \<open>funcs\<close>; a table entry always points into the arena.  A method set is a
  finite map from method identifiers to functions.  The locks and the logging of the
  sources are left out: construction is sequential here.
\<close>

type_synonym MethodSet = "(string, nat) fmap"

record Program =
  funcs :: "Function list"
  methodSets :: "ty \<Rightarrow> MethodSet option"
  concreteMethods :: "Func \<Rightarrow> nat option"
  ifaceMethodWrappers :: "Func \<Rightarrow> nat option"

text \<open>\<^verbatim>\<open>&Function{...}\<close>, once built: the next free index of the arena.\<close>

definition newFunction :: "Program \<Rightarrow> Function \<Rightarrow> nat \<times> Program" where
  "newFunction prog fn = (length (funcs prog), prog\<lparr>funcs := funcs prog @ [fn]\<rparr>)"

text \<open>A function as a value: its type is its signature.\<close>

definition functionValue :: "Program \<Rightarrow> nat \<Rightarrow> val" where
  "functionValue prog p = FunctionV p (sigType (FSignature (funcs prog ! p)))"

definition recvType :: "Func \<Rightarrow> error + ty" where
  "recvType obj = (case sigRecv (ftype obj) of None \<Rightarrow> Inl NilDereference | Some r \<Rightarrow> Inr (snd r))"

definition concreteMethod :: "Program \<Rightarrow> Func \<Rightarrow> error + nat" where
  "concreteMethod prog obj =
     (case concreteMethods prog obj of None \<Rightarrow> Inl (NoConcreteMethod obj) | Some fn \<Rightarrow> Inr fn)"

text \<open>
  Modelled from the spec: \<^verbatim>\<open>startBody\<close>, \<^verbatim>\<open>addParam\<close>, \<^verbatim>\<open>addParamObj\<close>,
  \<^verbatim>\<open>addSpilledParam\<close> and \<^verbatim>\<open>finishBody\<close> (func.go) are not among the sources.  Section
  4.2: "open its entry block", "materialize a receiver parameter plus the target method's
  declared formal parameters", the by-value receiver has a "spilled local" whose address
  is taken, and the finished function is frozen: no block stays open.  The passes that
  \<^verbatim>\<open>finishBody\<close> may run over the emitted code are not modelled.
\<close>

definition startBody :: "Function \<Rightarrow> Function" where
  "startBody f = f\<lparr>Blocks := Blocks f @ [[]], currentBlock := Some (length (Blocks f))\<rparr>"

definition addParam :: "Function \<Rightarrow> string \<Rightarrow> ty \<Rightarrow> val \<times> Function" where
  "addParam f n t = (Parameter n t, f\<lparr>Params := Params f @ [Parameter n t]\<rparr>)"

definition addParamObj :: "Function \<Rightarrow> var \<Rightarrow> val \<times> Function" where
  "addParamObj f obj = addParam f (fst obj) (snd obj)"

definition addSpilledParam :: "Function \<Rightarrow> var \<Rightarrow> error + Function" where
  "addSpilledParam f obj =
     (let (param, f1) = addParamObj f obj;
          spill = Alloc False (fst obj) (Pointer (snd obj));
          f2 = f1\<lparr>Locals := Locals f1 @ [spill]\<rparr>
      in bindE (emit f2 (Def spill)) (\<lambda>f3. emit f3 (Store spill param)))"

definition finishBody :: "Function \<Rightarrow> Function" where
  "finishBody f = f\<lparr>currentBlock := None\<rparr>"

text \<open>
  \<^verbatim>\<open>createParams\<close>: one parameter per formal of the signature; \<open>lastp\<close> is the parameter
  added last, whose type becomes a slice when the signature is variadic (the parameter
  object is shared with \<open>Params\<close>, where it is the last element).
\<close>

fun addParamObjs :: "Function \<Rightarrow> var list \<Rightarrow> val option \<Rightarrow> val option \<times> Function" where
  "addParamObjs f [] lastp = (lastp, f)"
| "addParamObjs f (obj # rest) lastp =
     (let (param, f') = addParamObj f obj in addParamObjs f' rest (Some param))"

fun setParamType :: "val \<Rightarrow> ty \<Rightarrow> val" where
  "setParamType (Parameter n t) t' = Parameter n t'"
| "setParamType v t' = v"

definition createParams :: "Function \<Rightarrow> error + Function" where
  "createParams fn =
     (let (lastp, fn1) = addParamObjs fn (sigParams (FSignature fn)) None in
      if IsVariadic (FSignature fn) then
        (case lastp of
           None \<Rightarrow> Inl NilDereference
         | Some param \<Rightarrow>
             Inr (fn1\<lparr>Params := butlast (Params fn1)
                            @ [setParamType param (Slice (Type param))]\<rparr>))
      else Inr fn1)"

text \<open>
  \<^verbatim>\<open>makeWrapper\<close>, in its two halves: up to the value the implicit selections arrive
  at (lines 175 to 215), and the call built on that value (lines 221 to 237).
\<close>

definition wrapperReceiver :: "ty \<Rightarrow> Selection \<Rightarrow> error + (val \<times> Function)" where
  "wrapperReceiver t meth =
     (let mfunc = Obj meth;
          old = ftype mfunc;
          sig = \<lparr>sigRecv = Some (''recv'', t), sigParams = sigParams old,
                 sigResults = sigResults old, IsVariadic = IsVariadic old\<rparr>;
          fn = \<lparr>name = fname mfunc, fmethod = Some meth, object = None, FSignature = sig,
                Synthetic = WrapperFor mfunc, Params = [], FreeVars = [], Locals = [],
                Blocks = [], currentBlock = None, needsMethods = []\<rparr>
      in bindE (addSpilledParam (startBody fn) (''recv'', t)) (\<lambda>fn1.
         bindE (createParams fn1) (\<lambda>fn2.
         bindE (case Locals fn2 of [] \<Rightarrow> Inl IndexOutOfRange | spill # ls \<Rightarrow> Inr spill) (\<lambda>v.
         bindE (if isPointer t then emitLoad fn2 v else Inr (v, fn2)) (\<lambda>(v1, fn3).
           case Index meth of
             [] \<Rightarrow> Inl IndexOutOfRange
           | i # is \<Rightarrow> emitImplicitSelections fn3 v1 (butlast (Index meth)))))))"

definition wrapperCall ::
  "Program \<Rightarrow> Selection \<Rightarrow> val \<Rightarrow> Function \<Rightarrow> error + (nat \<times> Program)" where
  "wrapperCall prog meth v fn =
     (let mfunc = Obj meth in
      bindE (recvType mfunc) (\<lambda>rt.
      bindE (if \<not> isInterface (Underlying rt) then
               bindE (if \<not> isPointer rt then emitLoad fn v else Inr (v, fn)) (\<lambda>(v1, fn1).
               bindE (concreteMethod prog mfunc) (\<lambda>p.
                 Inr (functionValue prog p, None, [v1], fn1)))
             else
               bindE (emitLoad fn v) (\<lambda>(v1, fn1). Inr (v1, Some mfunc, [], fn1)))
        (\<lambda>(callValue, callMethod, callArgs, fn1).
           case Params fn1 of
             [] \<Rightarrow> Inl IndexOutOfRange
           | recv # formals \<Rightarrow>
               bindE (emitTailCall fn1 callValue callMethod (callArgs @ formals)) (\<lambda>fn2.
                 Inr (newFunction prog (finishBody fn2))))))"

definition makeWrapper :: "Program \<Rightarrow> ty \<Rightarrow> Selection \<Rightarrow> error + (nat \<times> Program)" where
  "makeWrapper prog t meth =
     bindE (wrapperReceiver t meth) (\<lambda>(v, fn). wrapperCall prog meth v fn)"

definition interfaceMethodWrapper ::
  "Program \<Rightarrow> ty \<Rightarrow> Func \<Rightarrow> error + (nat \<times> Program)" where
  "interfaceMethodWrapper prog t obj =
     (case ifaceMethodWrappers prog obj of
        Some fn \<Rightarrow> Inr (fn, prog)
      | None \<Rightarrow>
          (let fn = \<lparr>name = fname obj, fmethod = None, object = Some obj,
                     FSignature = ftype obj, Synthetic = InterfaceMethodWrapperFor t obj,
                     Params = [], FreeVars = [], Locals = [], Blocks = [],
                     currentBlock = None, needsMethods = []\<rparr>;
               (recv, fn1) = addParam (startBody fn) ''recv'' t
           in bindE (createParams fn1) (\<lambda>fn2.
                case Params fn2 of
                  [] \<Rightarrow> Inl IndexOutOfRange
                | recv # formals \<Rightarrow>
                    bindE (emitTailCall fn2 recv (Some obj) formals) (\<lambda>fn3.
                      let (p, prog1) = newFunction prog (finishBody fn3) in
                      Inr (p, prog1\<lparr>ifaceMethodWrappers :=
                                       (ifaceMethodWrappers prog1)(obj \<mapsto> p)\<rparr>)))))"

section \<open>The method-set registry\<close>

definition findMethod :: "Program \<Rightarrow> Selection \<Rightarrow> error + (nat \<times> Program)" where
  "findMethod prog meth =
     (let needsPromotion = (length (Index meth) > 1);
          mfunc = Obj meth
      in bindE (recvType mfunc) (\<lambda>rt.
           let needsIndirection = (\<not> isPointer rt \<and> isPointer (Recv meth)) in
           if needsPromotion \<or> needsIndirection then makeWrapper prog (Recv meth) meth
           else if isInterface (Underlying (Recv meth))
           then interfaceMethodWrapper prog (Recv meth) mfunc
           else bindE (concreteMethod prog mfunc) (\<lambda>fn. Inr (fn, prog))))"

text \<open>
  The type checker's enumeration \<^verbatim>\<open>typ.MethodSet()\<close> is a parameter, \<open>tms\<close>: the
  selections of a type's methods, in its order.
\<close>

definition methodSet :: "(ty \<Rightarrow> Selection list) \<Rightarrow> ty \<Rightarrow> Selection list" where
  "methodSet tms t =
     (if isInterface (Underlying (deref t)) \<and> isPointer t then [] else tms t)"

text \<open>The loop over the complete set (lines 87 to 92).\<close>

fun populateAll ::
  "Program \<Rightarrow> MethodSet \<Rightarrow> Selection list \<Rightarrow> error + (MethodSet \<times> Program)" where
  "populateAll prog mset [] = Inr (mset, prog)"
| "populateAll prog mset (meth # rest) =
     (if fmlookup mset (Id_of (Obj meth)) = None then
        bindE (findMethod prog meth) (\<lambda>(fn, prog').
          populateAll prog' (fmupd (Id_of (Obj meth)) fn mset) rest)
      else populateAll prog mset rest)"

text \<open>
  The method set of the table is a Go map, shared by reference with the table: what is
  written to \<open>mset\<close> is written to the table's entry.  No step in between reads the table,
  so the entry is written once, after the last update.  A nil result is \<open>None\<close>.
\<close>

definition populateMethodSet ::
  "(ty \<Rightarrow> Selection list) \<Rightarrow> Program \<Rightarrow> ty \<Rightarrow> Selection option
     \<Rightarrow> error + (MethodSet option \<times> Program)" where
  "populateMethodSet tms prog t meth =
     (let tmset = methodSet tms t; n = length tmset in
      if n = 0 then Inr (None, prog)
      else
        (let mset = (case methodSets prog t of None \<Rightarrow> fmempty | Some m \<Rightarrow> m) in
         bindE (if fcard (fmdom mset) < n then
                  (case meth of
                     Some m \<Rightarrow>
                       if fmlookup mset (Id_of (Obj m)) = None then
                         bindE (findMethod prog m) (\<lambda>(fn, prog').
                           Inr (fmupd (Id_of (Obj m)) fn mset, prog'))
                       else Inr (mset, prog)
                   | None \<Rightarrow> populateAll prog mset tmset)
                else Inr (mset, prog))
           (\<lambda>(mset', prog').
              Inr (Some mset', prog'\<lparr>methodSets := (methodSets prog')(t \<mapsto> mset')\<rparr>))))"

definition MethodSet :: "(ty \<Rightarrow> Selection list) \<Rightarrow> Program \<Rightarrow> ty
     \<Rightarrow> error + (MethodSet option \<times> Program)" where
  "MethodSet tms prog t = populateMethodSet tms prog t None"

definition LookupMethod :: "(ty \<Rightarrow> Selection list) \<Rightarrow> Program \<Rightarrow> Selection
     \<Rightarrow> error + (nat option \<times> Program)" where
  "LookupMethod tms prog meth =
     bindE (populateMethodSet tms prog (Recv meth) (Some meth)) (\<lambda>(mset, prog').
       Inr (case mset of None \<Rightarrow> None | Some m \<Rightarrow> fmlookup m (Id_of (Obj meth)), prog'))"

section \<open>Reading the emitted code\<close>

text \<open>
  A function is open at block \<open>b\<close> when \<open>b\<close> is its current block; \<open>appendInstrs f b is\<close>
  is \<open>f\<close> with the instructions \<open>is\<close> appended to block \<open>b\<close> and nothing else changed.
\<close>

definition openAt :: "Function \<Rightarrow> nat \<Rightarrow> bool" where
  "openAt f b = (currentBlock f = Some b \<and> b < length (Blocks f))"

definition appendInstrs :: "Function \<Rightarrow> nat \<Rightarrow> instr list \<Rightarrow> Function" where
  "appendInstrs f b is = f\<lparr>Blocks := (Blocks f)[b := Blocks f ! b @ is]\<rparr>"

text \<open>
  The tail call as section 4.3 words it: the call, typed by the single result or by the
  result tuple; no result, a bare return; one result, returned directly; more, one
  extraction per component in ascending order, then the return of the extracted values.
\<close>

definition tailCallValue :: "var list \<Rightarrow> val \<Rightarrow> Func option \<Rightarrow> val list \<Rightarrow> val" where
  "tailCallValue tresults cv cm args =
     Call cv cm args (case tresults of [r] \<Rightarrow> snd r | _ \<Rightarrow> Tuple tresults)"

definition tailExtracts :: "var list \<Rightarrow> val \<Rightarrow> val list" where
  "tailExtracts tresults call =
     map (\<lambda>i. Extract call i (snd (tresults ! i))) [0..<length tresults]"

definition tailCallInstrs :: "var list \<Rightarrow> val \<Rightarrow> instr list" where
  "tailCallInstrs tresults call =
     (case tresults of
        [] \<Rightarrow> [Def call, Return []]
      | [r] \<Rightarrow> [Def call, Return [call]]
      | _ \<Rightarrow> Def call # map Def (tailExtracts tresults call)
               @ [Return (tailExtracts tresults call)])"

text \<open>
  The implicit selections as section 4.2a (step 2) words them.  The field selected at a
  step is the field, at the given index, of the struct that the current value is or
  points to.  From a pointer the step is a field address typed as pointer to the field,
  followed by a load exactly when the field's own declared type is a pointer; from a
  struct value the step is a field extraction.  The walk is one step per index, left to
  right, each step starting at the value the step before it arrived at.
\<close>

definition selectedField :: "val \<Rightarrow> nat \<Rightarrow> error + ty" where
  "selectedField v index =
     (case Underlying (deref (Type v)) of
        Struct flds \<Rightarrow>
          if index < length flds then Inr (snd (flds ! index)) else Inl IndexOutOfRange
      | _ \<Rightarrow> Inl TypeAssertion)"

definition selectionStep :: "val \<Rightarrow> nat \<Rightarrow> ty \<Rightarrow> val list" where
  "selectionStep v index fld =
     (if isPointer (Type v) then
        (if isPointer fld
         then [FieldAddr v index (Pointer fld), UnOp MUL (FieldAddr v index (Pointer fld)) fld]
         else [FieldAddr v index (Pointer fld)])
      else [Field v index fld])"

fun selectionSteps :: "val \<Rightarrow> nat list \<Rightarrow> error + val list list" where
  "selectionSteps v [] = Inr []"
| "selectionSteps v (index # rest) =
     bindE (selectedField v index) (\<lambda>fld.
     bindE (selectionSteps (last (selectionStep v index fld)) rest) (\<lambda>steps.
       Inr (selectionStep v index fld # steps)))"

text \<open>A function with one open, empty entry block, for the examples.\<close>

definition entryFn :: Function where
  "entryFn =
     \<lparr>name = ''g'', fmethod = None, object = None,
      FSignature = \<lparr>sigRecv = None, sigParams = [], sigResults = [], IsVariadic = False\<rparr>,
      Synthetic = NotSynthetic, Params = [], FreeVars = [], Locals = [], Blocks = [[]],
      currentBlock = Some 0, needsMethods = []\<rparr>"

text \<open>A function with two results and an open entry block.\<close>

definition twoResultFn :: Function where
  "twoResultFn =
     \<lparr>name = ''f'', fmethod = None, object = None,
      FSignature = \<lparr>sigRecv = None, sigParams = [],
                    sigResults = [(''n'', Basic IntKind), (''ok'', Basic Bool)],
                    IsVariadic = False\<rparr>,
      Synthetic = NotSynthetic, Params = [Parameter ''recv'' (Interface [''f''])],
      FreeVars = [], Locals = [], Blocks = [[]], currentBlock = Some 0,
      needsMethods = []\<rparr>"

text \<open>
  The declarations of the comment on \<^verbatim>\<open>makeWrapper\<close>:
  \<^verbatim>\<open>type A struct {B}; type B struct {*C}; type C struct{}; func (*C) f()\<close>.
\<close>

definition exC :: ty where
  "exC = Named ''C'' (Struct [])"

definition exB :: ty where
  "exB = Named ''B'' (Struct [(''C'', Pointer exC)])"

definition exA :: ty where
  "exA = Named ''A'' (Struct [(''B'', exB)])"

text \<open>
  The parameters of a wrapper after its receiver, as section 4.2 words them: the target
  method's declared formal parameters, the final one a variable-length sequence if the
  signature is variadic.
\<close>

definition formalParams :: "signature \<Rightarrow> val list" where
  "formalParams s =
     (if IsVariadic s \<and> sigParams s \<noteq> []
      then map (\<lambda>p. Parameter (fst p) (snd p)) (butlast (sigParams s))
           @ [Parameter (fst (last (sigParams s))) (Slice (snd (last (sigParams s))))]
      else map (\<lambda>p. Parameter (fst p) (snd p)) (sigParams s))"

text \<open>
  The interface-method wrapper as section 4.2b words it: the receiver as an explicit
  leading parameter followed by the method's formals; a body of one block that issues one
  abstract call to the method on that parameter and tail-returns the result.
\<close>

definition interfaceWrapperFunction :: "ty \<Rightarrow> Func \<Rightarrow> Function" where
  "interfaceWrapperFunction t obj =
     \<lparr>name = fname obj, fmethod = None, object = Some obj, FSignature = ftype obj,
      Synthetic = InterfaceMethodWrapperFor t obj,
      Params = Parameter ''recv'' t # formalParams (ftype obj),
      FreeVars = [], Locals = [],
      Blocks = [tailCallInstrs (sigResults (ftype obj))
                  (tailCallValue (sigResults (ftype obj)) (Parameter ''recv'' t) (Some obj)
                     (formalParams (ftype obj)))],
      currentBlock = None, needsMethods = []\<rparr>"

text \<open>
  Two interface types that expose the same method object:
  \<^verbatim>\<open>type I interface { f() }; type J interface { I; g() }\<close>.
\<close>

definition exI :: ty where
  "exI = Named ''I'' (Interface [''f''])"

definition exJ :: ty where
  "exJ = Named ''J'' (Interface [''f'', ''g''])"

definition exIf :: Func where
  "exIf = \<lparr>fname = ''f'', fpkg = ''main'',
            ftype = \<lparr>sigRecv = Some ([], exI), sigParams = [], sigResults = [],
                      IsVariadic = False\<rparr>\<rparr>"

definition emptyProgram :: Program where
  "emptyProgram = \<lparr>funcs = [], methodSets = (\<lambda>t. None), concreteMethods = (\<lambda>obj. None),
                    ifaceMethodWrappers = (\<lambda>obj. None)\<rparr>"

text \<open>
  The promotion wrapper as section 4.2a words it.  \<open>wrapperEntry\<close> is the function after
  the shared skeleton: the receiver parameter of the wrapper's receiver type and the
  method's formals, the receiver spilled to a local.  The base of the walk is a pointer:
  the address of the spilled local for a receiver passed by value, the receiver itself
  (loaded from the spill) for one passed by pointer; \<open>wrapperBase\<close> lists the spill and,
  for a pointer receiver, the load, the base being the last.
\<close>

definition spilledReceiver :: "ty \<Rightarrow> val" where
  "spilledReceiver t = Alloc False ''recv'' (Pointer t)"

definition wrapperEntry :: "ty \<Rightarrow> Selection \<Rightarrow> Function" where
  "wrapperEntry t meth =
     \<lparr>name = fname (Obj meth), fmethod = Some meth, object = None,
      FSignature = \<lparr>sigRecv = Some (''recv'', t), sigParams = sigParams (ftype (Obj meth)),
                    sigResults = sigResults (ftype (Obj meth)),
                    IsVariadic = IsVariadic (ftype (Obj meth))\<rparr>,
      Synthetic = WrapperFor (Obj meth),
      Params = Parameter ''recv'' t # formalParams (ftype (Obj meth)),
      FreeVars = [], Locals = [spilledReceiver t],
      Blocks = [[Def (spilledReceiver t), Store (spilledReceiver t) (Parameter ''recv'' t)]],
      currentBlock = Some 0, needsMethods = []\<rparr>"

definition wrapperBase :: "ty \<Rightarrow> val list" where
  "wrapperBase t =
     (if isPointer t then [spilledReceiver t, UnOp MUL (spilledReceiver t) t]
      else [spilledReceiver t])"

definition loadOf :: "val \<Rightarrow> val" where
  "loadOf addr = UnOp MUL addr (deref (Type addr))"

text \<open>
  The call at the arrived-at value \<open>v\<close>, which is an address.  For an abstract method the
  interface value is loaded from it and the call is dispatched on the loaded value; for a
  concrete method the call is direct, its first argument the value loaded from \<open>v\<close> when
  the method declares a value receiver and \<open>v\<close> itself when it declares a pointer
  receiver.  The formals follow, and the call is a tail call.
\<close>

definition abstractCallInstrs :: "var list \<Rightarrow> Func \<Rightarrow> val \<Rightarrow> val list \<Rightarrow> instr list" where
  "abstractCallInstrs res m v formals =
     Def (loadOf v) # tailCallInstrs res (tailCallValue res (loadOf v) (Some m) formals)"

definition directCallInstrs :: "var list \<Rightarrow> val \<Rightarrow> bool \<Rightarrow> val \<Rightarrow> val list \<Rightarrow> instr list" where
  "directCallInstrs res callee byValue v formals =
     (if byValue
      then Def (loadOf v) # tailCallInstrs res (tailCallValue res callee None (loadOf v # formals))
      else tailCallInstrs res (tailCallValue res callee None (v # formals)))"

text \<open>
  A promotion/indirection wrapper was synthesized by a step from \<open>prog\<close> to \<open>prog'\<close> that
  returned \<open>fn\<close>: \<open>fn\<close> is the one new function of the arena, tagged as the wrapper for the
  selection's method.
\<close>

definition promotionWrapperBuilt :: "Program \<Rightarrow> Selection \<Rightarrow> nat \<Rightarrow> Program \<Rightarrow> bool" where
  "promotionWrapperBuilt prog meth fn prog' =
     (fn = length (funcs prog) \<and> length (funcs prog') = Suc (length (funcs prog)) \<and>
      Synthetic (funcs prog' ! fn) = WrapperFor (Obj meth) \<and>
      fmethod (funcs prog' ! fn) = Some meth)"

text \<open>The examples: the concrete method \<^verbatim>\<open>func (c *C) f()\<close> and its function.\<close>

definition exCf :: Func where
  "exCf = \<lparr>fname = ''f'', fpkg = ''main'',
            ftype = \<lparr>sigRecv = Some (''c'', Pointer exC), sigParams = [], sigResults = [],
                      IsVariadic = False\<rparr>\<rparr>"

definition exFnCf :: Function where
  "exFnCf =
     \<lparr>name = ''f'', fmethod = None, object = Some exCf, FSignature = ftype exCf,
      Synthetic = NotSynthetic, Params = [Parameter ''c'' (Pointer exC)], FreeVars = [],
      Locals = [], Blocks = [[Return []]], currentBlock = None, needsMethods = []\<rparr>"

definition exProgram :: Program where
  "exProgram = \<lparr>funcs = [exFnCf], methodSets = (\<lambda>t. None), concreteMethods = [exCf \<mapsto> 0],
                 ifaceMethodWrappers = (\<lambda>obj. None)\<rparr>"

text \<open>
  The selections of the examples: \<^verbatim>\<open>f\<close> promoted to \<^verbatim>\<open>A\<close> through \<^verbatim>\<open>B\<close> and \<^verbatim>\<open>*C\<close>;
  the interface method \<^verbatim>\<open>f\<close> promoted to \<^verbatim>\<open>type AI struct { I }\<close>; \<^verbatim>\<open>f\<close> selected on
  \<^verbatim>\<open>C\<close> and on \<^verbatim>\<open>*C\<close> themselves.  Then the values the walks arrive at, the type
  checker's enumeration for \<^verbatim>\<open>*C\<close>, and the program after the lookup of \<^verbatim>\<open>(*C).f\<close>.
\<close>

definition exSelA :: Selection where
  "exSelA = \<lparr>Recv = exA, Obj = exCf, Index = [0, 0, 0]\<rparr>"

definition exAI :: ty where
  "exAI = Named ''AI'' (Struct [(''I'', exI)])"

definition exSelAI :: Selection where
  "exSelAI = \<lparr>Recv = exAI, Obj = exIf, Index = [0, 0]\<rparr>"

definition exSelC :: Selection where
  "exSelC = \<lparr>Recv = exC, Obj = exCf, Index = [0]\<rparr>"

definition exSelPC :: Selection where
  "exSelPC = \<lparr>Recv = Pointer exC, Obj = exCf, Index = [0]\<rparr>"

definition exArrivedC :: val where
  "exArrivedC =
     UnOp MUL (FieldAddr (FieldAddr (spilledReceiver exA) 0 (Pointer exB)) 0
                 (Pointer (Pointer exC))) (Pointer exC)"

definition exWalkA :: Function where
  "exWalkA =
     appendInstrs (wrapperEntry exA exSelA) 0
       [Def (FieldAddr (spilledReceiver exA) 0 (Pointer exB)),
        Def (FieldAddr (FieldAddr (spilledReceiver exA) 0 (Pointer exB)) 0
               (Pointer (Pointer exC))),
        Def exArrivedC]"

definition exArrivedI :: val where
  "exArrivedI = FieldAddr (spilledReceiver exAI) 0 (Pointer exI)"



lemma openAt_appendInstrs [simp]: "openAt (appendInstrs f b is) b' = openAt f b'"
  by (simp add: openAt_def appendInstrs_def)

lemma appendInstrs_Nil [simp]: "appendInstrs f b [] = f"
  by (simp add: appendInstrs_def)

lemma appendInstrs_appendInstrs [simp]:
  "appendInstrs (appendInstrs f b xs) b ys = appendInstrs f b (xs @ ys)"
  by (cases "b < length (Blocks f)") (simp_all add: appendInstrs_def list_update_beyond)

lemma FSignature_appendInstrs [simp]: "FSignature (appendInstrs f b is) = FSignature f"
  by (simp add: appendInstrs_def)

lemma Params_appendInstrs [simp]: "Params (appendInstrs f b is) = Params f"
  by (simp add: appendInstrs_def)

lemma deref_Pointer [simp]: "deref (Pointer t) = t"
  by (simp add: deref_def)

lemma isPointer_Pointer [simp]: "isPointer (Pointer t)"
  by (simp add: isPointer_def)

lemma openAt_needMethodsOf [simp]: "openAt (needMethodsOf f t) b = openAt f b"
  by (simp add: openAt_def needMethodsOf_def)

lemma openAt_entryFn: "openAt entryFn 0"
  by (simp add: openAt_def entryFn_def)

lemma emit_open: "openAt f b \<Longrightarrow> emit f i = Inr (appendInstrs f b [i])"
  by (simp add: emit_def openAt_def appendInstrs_def)

lemma emitV_open: "openAt f b \<Longrightarrow> emitV f v = Inr (v, appendInstrs f b [Def v])"
  by (simp add: emitV_def emit_open)

lemma emitLoad_open:
  "openAt f b \<Longrightarrow>
   emitLoad f a = Inr (UnOp MUL a (deref (Type a)),
                       appendInstrs f b [Def (UnOp MUL a (deref (Type a)))])"
  by (simp add: emitLoad_def emitV_open)

subsection \<open>The tail call\<close>

lemma emitExtract_open:
  "openAt f b \<Longrightarrow> Type tuple = Tuple vars \<Longrightarrow> i < length vars \<Longrightarrow>
   emitExtract f tuple i =
     Inr (Extract tuple i (snd (vars ! i)),
          appendInstrs f b [Def (Extract tuple i (snd (vars ! i)))])"
  by (simp add: emitExtract_def emitV_open)

lemma extractResults_open:
  "openAt f b \<Longrightarrow> Type tuple = Tuple vars \<Longrightarrow> (\<forall>i \<in> set is. i < length vars) \<Longrightarrow>
   extractResults f tuple is acc =
     Inr (acc @ map (\<lambda>i. Extract tuple i (snd (vars ! i))) is,
          appendInstrs f b (map (\<lambda>i. Def (Extract tuple i (snd (vars ! i)))) is))"
proof (induction "is" arbitrary: f acc)
  case Nil
  then show ?case by simp
next
  case (Cons i rest)
  then show ?case by (simp add: emitExtract_open)
qed

lemma emitTailCall_open:
  assumes "openAt f b"
  shows "emitTailCall f cv cm args =
     Inr ((appendInstrs f b
             (tailCallInstrs (sigResults (FSignature f))
                (tailCallValue (sigResults (FSignature f)) cv cm args)))
          \<lparr>currentBlock := None\<rparr>)"
proof -
  let ?ts = "sigResults (FSignature f)"
  let ?call = "tailCallValue ?ts cv cm args"
  consider "?ts = []" | r where "?ts = [r]" | "1 < length ?ts"
    by (cases ?ts rule: list.exhaust; cases "tl ?ts") auto
  then show ?thesis
  proof cases
    case 1
    then show ?thesis using assms
      by (simp add: emitTailCall_def tailCallValue_def tailCallInstrs_def
          emitV_open emit_open Let_def)
  next
    case 2
    then show ?thesis using assms
      by (simp add: emitTailCall_def tailCallValue_def tailCallInstrs_def
          emitV_open emit_open Let_def)
  next
    case 3
    then obtain r r' rest where ts: "?ts = r # r' # rest"
      by (cases ?ts; cases "tl ?ts") auto
    have call: "Call cv cm args (Tuple ?ts) = ?call"
      by (simp add: tailCallValue_def ts)
    have ty: "Type ?call = Tuple ?ts"
      by (simp add: tailCallValue_def ts)
    have ex: "extractResults (appendInstrs f b [Def ?call]) ?call [0..<length ?ts] [] =
      Inr ([] @ map (\<lambda>i. Extract ?call i (snd (?ts ! i))) [0..<length ?ts],
          appendInstrs (appendInstrs f b [Def ?call]) b
            (map (\<lambda>i. Def (Extract ?call i (snd (?ts ! i)))) [0..<length ?ts]))"
      by (rule extractResults_open) (use assms ty in simp_all)
    have ne: "?ts \<noteq> []" "length ?ts \<noteq> Suc 0" "length ?ts \<noteq> 0" using 3 by auto
    have instrs: "tailCallInstrs ?ts ?call =
        Def ?call # map Def (tailExtracts ?ts ?call) @ [Return (tailExtracts ?ts ?call)]"
      by (simp add: tailCallInstrs_def ts)
    show ?thesis using ne assms ex
      by (simp add: emitTailCall_def call instrs tailExtracts_def
          emitV_open emit_open comp_def Let_def)
  qed
qed

text \<open>
  C7.  Whenever the function has an open block, the tail call succeeds; the block
  receives the call, then nothing more for no result or one result, and for more than
  one result exactly one extraction per tuple component, in ascending index order and
  with no conversion, and last the return (bare, of the call's value, or of the
  extracted values); no other block changes, and afterwards no block is open.
\<close>

theorem emitTailCall_arity:
  assumes "openAt f b"
  shows "emitTailCall f cv cm args =
       Inr ((appendInstrs f b
               (tailCallInstrs (sigResults (FSignature f))
                  (tailCallValue (sigResults (FSignature f)) cv cm args)))
            \<lparr>currentBlock := None\<rparr>)"
  using assms by (rule emitTailCall_open)

theorem emitTailCall_arity_witness:
  "openAt twoResultFn 0 \<and>
   emitTailCall twoResultFn (Parameter ''recv'' (Interface [''f''])) None [] =
     Inr (twoResultFn
          \<lparr>Blocks :=
             [[Def (Call (Parameter ''recv'' (Interface [''f''])) None []
                      (Tuple [(''n'', Basic IntKind), (''ok'', Basic Bool)])),
               Def (Extract (Call (Parameter ''recv'' (Interface [''f''])) None []
                      (Tuple [(''n'', Basic IntKind), (''ok'', Basic Bool)])) 0 (Basic IntKind)),
               Def (Extract (Call (Parameter ''recv'' (Interface [''f''])) None []
                      (Tuple [(''n'', Basic IntKind), (''ok'', Basic Bool)])) 1 (Basic Bool)),
               Return
                 [Extract (Call (Parameter ''recv'' (Interface [''f''])) None []
                      (Tuple [(''n'', Basic IntKind), (''ok'', Basic Bool)])) 0 (Basic IntKind),
                  Extract (Call (Parameter ''recv'' (Interface [''f''])) None []
                      (Tuple [(''n'', Basic IntKind), (''ok'', Basic Bool)])) 1 (Basic Bool)]]],
           currentBlock := None\<rparr>)"
proof -
  have h: "openAt twoResultFn 0"
    by (simp add: openAt_def twoResultFn_def)
  have up: "[0..<2] = [0, Suc 0]"
    by (simp add: upt_rec)
  show ?thesis
    using h emitTailCall_arity [OF h, of "Parameter ''recv'' (Interface [''f''])" None "[]"]
    by (simp add: twoResultFn_def appendInstrs_def tailCallInstrs_def tailCallValue_def
        tailExtracts_def up)
qed

subsection \<open>The implicit selections\<close>

lemma emitImplicitSelections_steps:
  "openAt f b \<Longrightarrow>
   (case selectionSteps v indices of
      Inl e \<Rightarrow> emitImplicitSelections f v indices = Inl e
    | Inr steps \<Rightarrow>
        length steps = length indices \<and>
        emitImplicitSelections f v indices =
          Inr (last (v # concat steps), appendInstrs f b (map Def (concat steps))))"
proof (induction indices arbitrary: f v)
  case Nil
  then show ?case by simp
next
  case (Cons index rest)
  show ?case
  proof (cases "selectedField v index")
    case (Inl e)
    then show ?thesis
      by (auto simp: selectedField_def split: ty.splits if_splits)
  next
    case (Inr fld)
    then obtain flds where st: "Underlying (deref (Type v)) = Struct flds"
      and ix: "index < length flds" and fld: "fld = snd (flds ! index)"
      by (auto simp: selectedField_def split: ty.splits if_splits)
    let ?step = "selectionStep v index fld"
    let ?f1 = "appendInstrs f b (map Def ?step)"
    have o1: "openAt ?f1 b" using Cons.prems by simp
    have ne: "?step \<noteq> []" by (simp add: selectionStep_def)
    have head: "emitImplicitSelections f v (index # rest) =
        emitImplicitSelections ?f1 (last ?step) rest"
      using Cons.prems st ix fld
      by (simp add: selectionStep_def emitV_open emitLoad_open Let_def)
    show ?thesis
    proof (cases "selectionSteps (last ?step) rest")
      case (Inl e)
      then have "selectionSteps v (index # rest) = Inl e" using Inr by simp
      moreover have "emitImplicitSelections ?f1 (last ?step) rest = Inl e"
        using Cons.IH [OF o1, of "last ?step"] Inl by simp
      ultimately show ?thesis by (simp only: head sum.case)
    next
      case steps: (Inr steps)
      then have sp: "selectionSteps v (index # rest) = Inr (?step # steps)" using Inr by simp
      have ih: "length steps = length rest \<and>
          emitImplicitSelections ?f1 (last ?step) rest =
            Inr (last (last ?step # concat steps), appendInstrs ?f1 b (map Def (concat steps)))"
        using Cons.IH [OF o1, of "last ?step"] steps by simp
      show ?thesis
        unfolding sp head using ih ne by (simp add: last_append)
    qed
  qed
qed

text \<open>
  C2.  For every base value and index path, with a block open: the emitter fails exactly
  where the worded walk meets a value that is no struct (or an index out of its fields),
  and otherwise emits exactly the worded steps, one per index and in path order: from a
  pointer a field address typed as pointer to the field, followed at once by a load if and
  only if the field's declared type is a pointer; from a struct value a field extraction.
  It returns the value the last step arrived at.
\<close>

theorem emitImplicitSelections_walk:
  assumes "openAt f b"
  shows "case selectionSteps v indices of
      Inl e \<Rightarrow> emitImplicitSelections f v indices = Inl e
    | Inr steps \<Rightarrow>
        length steps = length indices \<and>
        emitImplicitSelections f v indices =
          Inr (last (v # concat steps), appendInstrs f b (map Def (concat steps)))"
  using assms by (rule emitImplicitSelections_steps)

theorem emitImplicitSelections_walk_witness:
  "openAt entryFn 0 \<and>
   emitImplicitSelections entryFn (Parameter ''a'' (Pointer exA)) [0, 0] =
     Inr (UnOp MUL (FieldAddr (FieldAddr (Parameter ''a'' (Pointer exA)) 0 (Pointer exB)) 0
                      (Pointer (Pointer exC))) (Pointer exC),
          appendInstrs entryFn 0
            [Def (FieldAddr (Parameter ''a'' (Pointer exA)) 0 (Pointer exB)),
             Def (FieldAddr (FieldAddr (Parameter ''a'' (Pointer exA)) 0 (Pointer exB)) 0
                    (Pointer (Pointer exC))),
             Def (UnOp MUL (FieldAddr (FieldAddr (Parameter ''a'' (Pointer exA)) 0 (Pointer exB)) 0
                      (Pointer (Pointer exC))) (Pointer exC))])"
proof -
  have sA: "selectedField (Parameter ''a'' (Pointer exA)) 0 = Inr exB"
    by (simp add: selectedField_def exA_def)
  have sB: "selectedField (FieldAddr (Parameter ''a'' (Pointer exA)) 0 (Pointer exB)) 0
      = Inr (Pointer exC)"
    by (simp add: selectedField_def exB_def)
  have nB: "\<not> isPointer exB"
    by (simp add: isPointer_def exB_def)
  show ?thesis
    using emitImplicitSelections_walk [OF openAt_entryFn, of "Parameter ''a'' (Pointer exA)" "[0, 0]"]
    by (simp add: openAt_entryFn sA sB nB selectionStep_def)
qed

subsection \<open>Conversion, arithmetic, comparison\<close>

lemma emitConv_open_direct:
  assumes "openAt f b" and "\<not> isInterface (Underlying typ)"
  shows "\<exists>v' f'. emitConv f v typ = Inr (v', f') \<and> openAt f' b \<and> Type v' = typ"
proof (cases "Type v = typ")
  case True
  then show ?thesis using assms by (subst emitConv.simps) simp
next
  case ne: False
  show ?thesis
  proof (cases "isValuePreserving (Underlying (Type v)) (Underlying typ)")
    case True
    then show ?thesis using assms ne
      by (subst emitConv.simps) (simp add: emitV_open)
  next
    case False
    then show ?thesis using assms ne
      by (subst emitConv.simps) (cases v; simp add: emitV_open NewConst_def)
  qed
qed

lemma emitConv_open:
  assumes "openAt f b"
  shows "\<exists>v' f'. emitConv f v typ = Inr (v', f') \<and> openAt f' b \<and> Type v' = typ"
proof (cases "isInterface (Underlying typ)")
  case False
  then show ?thesis using assms by (rule emitConv_open_direct [rotated])
next
  case iface: True
  show ?thesis
  proof (cases "Type v = typ \<or> isValuePreserving (Underlying (Type v)) (Underlying typ)
       \<or> isInterface (Underlying (Type v)) \<or> Underlying (Type v) = tUntypedNil")
    case True
    then show ?thesis using assms iface
      by (subst emitConv.simps) (auto simp: emitV_open nilConst_def NewConst_def)
  next
    case False
    show ?thesis
    proof (cases "isUntypedBasic (Underlying (Type v))")
      case True
      then obtain k where k: "Underlying (Type v) = Basic k"
        by (cases "Underlying (Type v)") (simp_all add: isUntypedBasic_def)
      have "\<not> isInterface (Underlying (DefaultType (Underlying (Type v))))"
        by (simp add: k DefaultType_Basic_not_interface)
      from emitConv_open_direct [OF assms this, of v]
      obtain v1 f1 where r: "emitConv f v (DefaultType (Underlying (Type v))) = Inr (v1, f1)"
        and o: "openAt f1 b" by blast
      show ?thesis using False iface True r o
        by (subst emitConv.simps) (simp add: emitV_open)
    next
      case nb: False
      show ?thesis using False iface nb assms
        by (subst emitConv.simps) (simp add: emitV_open)
    qed
  qed
qed



text \<open>
  C8.  With a shift operator the left operand is converted to the result type, and the
  right operand is converted to \<^verbatim>\<open>uint64\<close> when its type is not already unsigned (its
  underlying type is basic and lacks the unsigned flag), else left as it is; with one of
  the nine eager arithmetic and bitwise operators both operands are converted to the
  result type; the binary operation on the converted operands is emitted and returned.
  Any other operator makes the emitter panic, whatever the function and the operands.
\<close>

theorem emitArith_operands:
  "(op \<in> {SHL, SHR} \<and> openAt f b \<longrightarrow>
      (\<exists>x' y' f1 f2.
         emitConv f x t = Inr (x', f1) \<and> Type x' = t \<and>
         (if notUnsignedBasic (Type y)
          then emitConv f1 y (Basic Uint64) = Inr (y', f2) \<and> Type y' = Basic Uint64
          else y' = y \<and> f2 = f1) \<and>
         emitArith f op x y t =
           Inr (BinOp op x' y' t, appendInstrs f2 b [Def (BinOp op x' y' t)]))) \<and>
   (op \<in> {ADD, SUB, MUL, QUO, REM, AND, OR, XOR, AND_NOT} \<and> openAt f b \<longrightarrow>
      (\<exists>x' y' f1 f2.
         emitConv f x t = Inr (x', f1) \<and> Type x' = t \<and>
         emitConv f1 y t = Inr (y', f2) \<and> Type y' = t \<and>
         emitArith f op x y t =
           Inr (BinOp op x' y' t, appendInstrs f2 b [Def (BinOp op x' y' t)]))) \<and>
   (op \<notin> {SHL, SHR, ADD, SUB, MUL, QUO, REM, AND, OR, XOR, AND_NOT} \<longrightarrow>
      emitArith f op x y t = Inl (IllegalOp op))"
proof (intro conjI impI)
  assume a: "op \<in> {SHL, SHR} \<and> openAt f b"
  then have sh: "isShift op" and o: "openAt f b" by (simp_all add: isShift_def)
  from emitConv_open [OF o, of x t] obtain x' f1
    where x: "emitConv f x t = Inr (x', f1)" and o1: "openAt f1 b" and tx: "Type x' = t"
    by blast
  show "\<exists>x' y' f1 f2.
         emitConv f x t = Inr (x', f1) \<and> Type x' = t \<and>
         (if notUnsignedBasic (Type y)
          then emitConv f1 y (Basic Uint64) = Inr (y', f2) \<and> Type y' = Basic Uint64
          else y' = y \<and> f2 = f1) \<and>
         emitArith f op x y t =
           Inr (BinOp op x' y' t, appendInstrs f2 b [Def (BinOp op x' y' t)])"
  proof (cases "notUnsignedBasic (Type y)")
    case True
    from emitConv_open [OF o1, of y "Basic Uint64"] obtain y' f2
      where y: "emitConv f1 y (Basic Uint64) = Inr (y', f2)" and o2: "openAt f2 b"
        and ty: "Type y' = Basic Uint64"
      by blast
    show ?thesis using True sh x tx y ty o2
      by (simp add: emitArith_def emitV_open)
  next
    case False
    show ?thesis using False sh x tx o1
      by (simp add: emitArith_def emitV_open)
  qed
next
  assume a: "op \<in> {ADD, SUB, MUL, QUO, REM, AND, OR, XOR, AND_NOT} \<and> openAt f b"
  then have ar: "isEagerArith op" "\<not> isShift op" and o: "openAt f b"
    by (auto simp: isEagerArith_def isShift_def)
  from emitConv_open [OF o, of x t] obtain x' f1
    where x: "emitConv f x t = Inr (x', f1)" and o1: "openAt f1 b" and tx: "Type x' = t"
    by blast
  from emitConv_open [OF o1, of y t] obtain y' f2
    where y: "emitConv f1 y t = Inr (y', f2)" and o2: "openAt f2 b" and ty: "Type y' = t"
    by blast
  show "\<exists>x' y' f1 f2.
         emitConv f x t = Inr (x', f1) \<and> Type x' = t \<and>
         emitConv f1 y t = Inr (y', f2) \<and> Type y' = t \<and>
         emitArith f op x y t =
           Inr (BinOp op x' y' t, appendInstrs f2 b [Def (BinOp op x' y' t)])"
    using ar x tx y ty o2 by (simp add: emitArith_def emitV_open)
next
  assume "op \<notin> {SHL, SHR, ADD, SUB, MUL, QUO, REM, AND, OR, XOR, AND_NOT}"
  then show "emitArith f op x y t = Inl (IllegalOp op)"
    by (simp add: emitArith_def isShift_def isEagerArith_def)
qed

theorem emitArith_operands_witness:
  "openAt entryFn 0 \<and>
   emitArith entryFn SHL (Parameter ''x'' (Basic Int32)) (Parameter ''s'' (Basic IntKind))
       (Basic Int32) =
     Inr (BinOp SHL (Parameter ''x'' (Basic Int32))
            (Convert (Parameter ''s'' (Basic IntKind)) (Basic Uint64)) (Basic Int32),
          appendInstrs entryFn 0
            [Def (Convert (Parameter ''s'' (Basic IntKind)) (Basic Uint64)),
             Def (BinOp SHL (Parameter ''x'' (Basic Int32))
                    (Convert (Parameter ''s'' (Basic IntKind)) (Basic Uint64)) (Basic Int32))]) \<and>
   emitArith entryFn ADD (Parameter ''x'' (Basic Int32)) (Const Allocated (IntV 1) (Basic UntypedInt))
       (Basic Int32) =
     Inr (BinOp ADD (Parameter ''x'' (Basic Int32)) (Const Allocated (IntV 1) (Basic Int32)) (Basic Int32),
          appendInstrs entryFn 0
            [Def (BinOp ADD (Parameter ''x'' (Basic Int32)) (Const Allocated (IntV 1) (Basic Int32))
                    (Basic Int32))]) \<and>
   emitArith entryFn LAND (Parameter ''p'' (Basic Bool)) (Parameter ''q'' (Basic Bool))
       (Basic Bool) = Inl (IllegalOp LAND)"
proof -
  have c1: "emitConv entryFn (Parameter ''x'' (Basic Int32)) (Basic Int32) =
      Inr (Parameter ''x'' (Basic Int32), entryFn)"
    by (subst emitConv.simps) simp
  have c2: "emitConv entryFn (Parameter ''s'' (Basic IntKind)) (Basic Uint64) =
      Inr (Convert (Parameter ''s'' (Basic IntKind)) (Basic Uint64),
           appendInstrs entryFn 0 [Def (Convert (Parameter ''s'' (Basic IntKind)) (Basic Uint64))])"
    by (subst emitConv.simps) (simp add: emitV_open [OF openAt_entryFn])
  have c3: "emitConv entryFn (Const Allocated (IntV 1) (Basic UntypedInt)) (Basic Int32) =
      Inr (Const Allocated (IntV 1) (Basic Int32), entryFn)"
    by (subst emitConv.simps) (simp add: NewConst_def)
  show ?thesis
    using emitArith_operands [of SHL entryFn 0 "Parameter ''x'' (Basic Int32)" "Basic Int32"
        "Parameter ''s'' (Basic IntKind)"]
      emitArith_operands [of ADD entryFn 0 "Parameter ''x'' (Basic Int32)" "Basic Int32"
        "Const Allocated (IntV 1) (Basic UntypedInt)"]
      emitArith_operands [of LAND entryFn 0 "Parameter ''p'' (Basic Bool)" "Basic Bool"
        "Parameter ''q'' (Basic Bool)"]
    by (simp add: openAt_entryFn c1 c2 c3 notUnsignedBasic_def)
qed



text \<open>
  C9, as amended.  The conversion tries the cases in order: identical types, then the
  value-preserving conversions, then interface targets, and only then literal constants.
  So for a literal constant and a non-interface target type, not identical to the source
  type and not value-preserving from it (the underlying types differ and are not two
  channel, two pointer or two signature types), the conversion returns a new constant of
  the target type with the same abstract value and emits no instruction: the function is
  unchanged, open block or not.
\<close>

theorem emitConv_constant:
  assumes "Type (Const i c t) \<noteq> typ"
    and "\<not> isInterface (Underlying typ)"
    and "\<not> isValuePreserving (Underlying t) (Underlying typ)"
  shows "emitConv f (Const i c t) typ = Inr (Const Allocated c typ, f)"
  using assms by (subst emitConv.simps) (simp add: NewConst_def)

theorem emitConv_constant_witness:
  "Type (Const Allocated (IntV 1) (Basic UntypedInt)) \<noteq> Basic Int32 \<and>
   \<not> isInterface (Underlying (Basic Int32)) \<and>
   \<not> isValuePreserving (Underlying (Basic UntypedInt)) (Underlying (Basic Int32)) \<and>
   emitConv entryFn (Const Allocated (IntV 1) (Basic UntypedInt)) (Basic Int32) =
     Inr (Const Allocated (IntV 1) (Basic Int32), entryFn)"
  using emitConv_constant [of Allocated "IntV 1" "Basic UntypedInt" "Basic Int32" entryFn]
  by simp

text \<open>
  The claim as stated fails on a constant of type \<^verbatim>\<open>int\<close> converted to a named type
  whose underlying type is \<^verbatim>\<open>int\<close>: the target is no interface and differs from the
  source type, yet a \<^verbatim>\<open>ChangeType\<close> instruction is emitted and returned.
\<close>

theorem emitConv_constant_counterexample:
  "isConst (Const Allocated (IntV 1) (Basic IntKind)) \<and>
   \<not> isInterface (Underlying (Named ''MyInt'' (Basic IntKind))) \<and>
   Type (Const Allocated (IntV 1) (Basic IntKind)) \<noteq> Named ''MyInt'' (Basic IntKind) \<and>
   emitConv entryFn (Const Allocated (IntV 1) (Basic IntKind)) (Named ''MyInt'' (Basic IntKind)) =
     Inr (ChangeType (Const Allocated (IntV 1) (Basic IntKind)) (Named ''MyInt'' (Basic IntKind)),
          appendInstrs entryFn 0
            [Def (ChangeType (Const Allocated (IntV 1) (Basic IntKind)) (Named ''MyInt'' (Basic IntKind)))])"
  by (subst emitConv.simps) (simp add: emitV_open [OF openAt_entryFn])

text \<open>
  C4, as amended.  The short cut looks at the left operand only: when the left operand is
  the shared constant \<open>vTrue\<close> itself (the object, not merely a constant that is true and
  boolean), the operator is equality and the right operand's underlying type is a boolean
  basic type, the right operand is returned and nothing is emitted.  In every other case
  (with a block open), also when the left operand is a true constant that \<^verbatim>\<open>NewConst\<close>
  allocated or when \<open>vTrue\<close> is the right operand, a comparison instruction of boolean
  type is emitted and returned, its operands chosen by the first rule that applies: identical
  underlying types, both unconverted; the left operand's underlying type an interface,
  the right operand converted to the left's type; the right operand's an interface, the
  left converted to the right's type; the left operand a constant, it is converted to the
  right's type; the right operand a constant, it is converted to the left's type;
  otherwise both unconverted.
\<close>

theorem emitCompare_rules:
  "(x = vTrue \<and> op = EQL \<and> isBooleanBasic (Underlying (Type y)) \<longrightarrow>
      emitCompare f op x y = Inr (y, f)) \<and>
   (\<not> (x = vTrue \<and> op = EQL \<and> isBooleanBasic (Underlying (Type y))) \<and> openAt f b \<longrightarrow>
      (\<exists>x' y' f1.
         emitCompare f op x y =
           Inr (BinOp op x' y' tBool, appendInstrs f1 b [Def (BinOp op x' y' tBool)]) \<and>
         (if Underlying (Type x) = Underlying (Type y) then x' = x \<and> y' = y \<and> f1 = f
          else if isInterface (Underlying (Type x))
            then x' = x \<and> emitConv f y (Type x) = Inr (y', f1) \<and> Type y' = Type x
          else if isInterface (Underlying (Type y))
            then y' = y \<and> emitConv f x (Type y) = Inr (x', f1) \<and> Type x' = Type y
          else if isConst x
            then y' = y \<and> emitConv f x (Type y) = Inr (x', f1) \<and> Type x' = Type y
          else if isConst y
            then x' = x \<and> emitConv f y (Type x) = Inr (y', f1) \<and> Type y' = Type x
          else x' = x \<and> y' = y \<and> f1 = f)))"
proof (intro conjI impI)
  assume "x = vTrue \<and> op = EQL \<and> isBooleanBasic (Underlying (Type y))"
  then show "emitCompare f op x y = Inr (y, f)"
    by (simp add: emitCompare_def)
next
  assume a: "\<not> (x = vTrue \<and> op = EQL \<and> isBooleanBasic (Underlying (Type y))) \<and> openAt f b"
  then have o: "openAt f b" by simp
  from emitConv_open [OF o, of y "Type x"] obtain y' fy
    where cy: "emitConv f y (Type x) = Inr (y', fy)" "openAt fy b" "Type y' = Type x"
    by blast
  from emitConv_open [OF o, of x "Type y"] obtain x' fx
    where cx: "emitConv f x (Type y) = Inr (x', fx)" "openAt fx b" "Type x' = Type y"
    by blast
  show "\<exists>x' y' f1.
         emitCompare f op x y =
           Inr (BinOp op x' y' tBool, appendInstrs f1 b [Def (BinOp op x' y' tBool)]) \<and>
         (if Underlying (Type x) = Underlying (Type y) then x' = x \<and> y' = y \<and> f1 = f
          else if isInterface (Underlying (Type x))
            then x' = x \<and> emitConv f y (Type x) = Inr (y', f1) \<and> Type y' = Type x
          else if isInterface (Underlying (Type y))
            then y' = y \<and> emitConv f x (Type y) = Inr (x', f1) \<and> Type x' = Type y
          else if isConst x
            then y' = y \<and> emitConv f x (Type y) = Inr (x', f1) \<and> Type x' = Type y
          else if isConst y
            then x' = x \<and> emitConv f y (Type x) = Inr (y', f1) \<and> Type y' = Type x
          else x' = x \<and> y' = y \<and> f1 = f)"
    using a cx cy by (auto simp: emitCompare_def Let_def emitV_open)
qed

theorem emitCompare_rules_witness:
  "isBooleanBasic (Underlying (Type (Parameter ''b'' tBool))) \<and>
   emitCompare entryFn EQL vTrue (Parameter ''b'' tBool) = Inr (Parameter ''b'' tBool, entryFn) \<and>
   openAt entryFn 0 \<and>
   NewConst (BoolV True) tBool \<noteq> vTrue \<and>
   emitCompare entryFn EQL (NewConst (BoolV True) tBool) (Parameter ''b'' tBool) =
     Inr (BinOp EQL (NewConst (BoolV True) tBool) (Parameter ''b'' tBool) tBool,
          appendInstrs entryFn 0
            [Def (BinOp EQL (NewConst (BoolV True) tBool) (Parameter ''b'' tBool) tBool)]) \<and>
   emitCompare entryFn LSS (Parameter ''i'' (Basic Int32)) (Const Allocated (IntV 1) (Basic UntypedInt)) =
     Inr (BinOp LSS (Parameter ''i'' (Basic Int32)) (Const Allocated (IntV 1) (Basic Int32)) tBool,
          appendInstrs entryFn 0
            [Def (BinOp LSS (Parameter ''i'' (Basic Int32)) (Const Allocated (IntV 1) (Basic Int32))
                    tBool)])"
proof -
  have c: "emitConv entryFn (Const Allocated (IntV 1) (Basic UntypedInt)) (Basic Int32) =
      Inr (Const Allocated (IntV 1) (Basic Int32), entryFn)"
    by (subst emitConv.simps) (simp add: NewConst_def)
  show ?thesis
    using emitCompare_rules [of vTrue EQL "Parameter ''b'' tBool" entryFn 0]
      emitCompare_rules [of "NewConst (BoolV True) tBool" EQL "Parameter ''b'' tBool" entryFn 0]
      emitCompare_rules [of "Parameter ''i'' (Basic Int32)" LSS
        "Const Allocated (IntV 1) (Basic UntypedInt)" entryFn 0]
    by (simp add: openAt_entryFn c isBooleanBasic_def tBool_def vTrue_def NewConst_def)
qed

text \<open>
  The claim as stated fails when the shared true constant is the right operand: the left
  operand is boolean and the comparison is an equality, yet a comparison instruction is
  emitted and its value returned, not the boolean operand.
\<close>

theorem emitCompare_rules_counterexample:
  "isBooleanBasic (Underlying (Type (Parameter ''b'' tBool))) \<and>
   emitCompare entryFn EQL (Parameter ''b'' tBool) vTrue =
     Inr (BinOp EQL (Parameter ''b'' tBool) vTrue tBool,
          appendInstrs entryFn 0 [Def (BinOp EQL (Parameter ''b'' tBool) vTrue tBool)]) \<and>
   BinOp EQL (Parameter ''b'' tBool) vTrue tBool \<noteq> Parameter ''b'' tBool"
  by (simp add: emitCompare_def isBooleanBasic_def tBool_def vTrue_def NewConst_def
      emitV_open [OF openAt_entryFn] Let_def)


text \<open>
  The rules are tried in order, not under an "exactly one" condition: with two operands
  of different interface types the right one is converted to the left one's type.
\<close>

lemma emitCompare_two_interfaces:
  "emitCompare entryFn EQL (Parameter ''r'' (Interface [''Read''])) (Parameter ''e'' (Interface [])) =
     Inr (BinOp EQL (Parameter ''r'' (Interface [''Read'']))
            (ChangeInterface (Parameter ''e'' (Interface [])) (Interface [''Read''])) tBool,
          appendInstrs entryFn 0
            [Def (ChangeInterface (Parameter ''e'' (Interface [])) (Interface [''Read''])),
             Def (BinOp EQL (Parameter ''r'' (Interface [''Read'']))
                    (ChangeInterface (Parameter ''e'' (Interface [])) (Interface [''Read'']))
                    tBool)])"
proof -
  have c: "emitConv entryFn (Parameter ''e'' (Interface [])) (Interface [''Read'']) =
      Inr (ChangeInterface (Parameter ''e'' (Interface [])) (Interface [''Read'']),
           appendInstrs entryFn 0
             [Def (ChangeInterface (Parameter ''e'' (Interface [])) (Interface [''Read'']))])"
    by (subst emitConv.simps) (simp add: emitV_open [OF openAt_entryFn])
  show ?thesis
    by (simp add: emitCompare_def Let_def vTrue_def NewConst_def c emitV_open [where b = 0]
        openAt_entryFn)
qed


section \<open>The registry and the wrappers\<close>

subsection \<open>Pointer to interface\<close>

text \<open>
  C10.  For every type that is a pointer whose pointee's underlying type is an interface,
  whatever the type checker's enumeration \<open>tms\<close> reports for it: the method-set query
  (for the whole set or for one selection) returns nil, and the lookup of a selection
  with that receiver returns nil; the program is unchanged, so no wrapper is synthesized
  and no table is written.
\<close>

theorem pointer_to_interface_empty:
  assumes "isPointer t" and "isInterface (Underlying (deref t))"
  shows "populateMethodSet tms prog t meth = Inr (None, prog) \<and>
         MethodSet tms prog t = Inr (None, prog) \<and>
         (Recv m = t \<longrightarrow> LookupMethod tms prog m = Inr (None, prog))"
  using assms
  by (simp add: populateMethodSet_def MethodSet_def LookupMethod_def methodSet_def)

theorem pointer_to_interface_empty_witness:
  "isPointer (Pointer exI) \<and> isInterface (Underlying (deref (Pointer exI))) \<and>
   MethodSet (\<lambda>t. [\<lparr>Recv = t, Obj = exIf, Index = [0]\<rparr>]) emptyProgram (Pointer exI) =
     Inr (None, emptyProgram) \<and>
   LookupMethod (\<lambda>t. [\<lparr>Recv = t, Obj = exIf, Index = [0]\<rparr>]) emptyProgram
       \<lparr>Recv = Pointer exI, Obj = exIf, Index = [0]\<rparr> =
     Inr (None, emptyProgram)"
proof -
  have p: "isPointer (Pointer exI)" by simp
  have i: "isInterface (Underlying (deref (Pointer exI)))" by (simp add: exI_def)
  show ?thesis
    using p i pointer_to_interface_empty [OF p i,
        of "\<lambda>t. [\<lparr>Recv = t, Obj = exIf, Index = [0]\<rparr>]" emptyProgram None
           "\<lparr>Recv = Pointer exI, Obj = exIf, Index = [0]\<rparr>"]
    by simp
qed

subsection \<open>The interface-method wrapper\<close>

lemma addParamObjs_eq:
  "addParamObjs f ps l =
     (if ps = [] then l else Some (Parameter (fst (last ps)) (snd (last ps))),
      f\<lparr>Params := Params f @ map (\<lambda>p. Parameter (fst p) (snd p)) ps\<rparr>)"
  by (induction ps arbitrary: f l) (simp_all add: addParamObj_def addParam_def)

lemma createParams_eq:
  "createParams fn =
     (if IsVariadic (FSignature fn) \<and> sigParams (FSignature fn) = [] then Inl NilDereference
      else Inr (fn\<lparr>Params := Params fn @ formalParams (FSignature fn)\<rparr>))"
  by (cases "sigParams (FSignature fn) = []")
     (simp_all add: createParams_def addParamObjs_eq formalParams_def map_butlast
        butlast_append)

lemma interfaceMethodWrapper_new:
  assumes "ifaceMethodWrappers prog obj = None"
    and "\<not> (IsVariadic (ftype obj) \<and> sigParams (ftype obj) = [])"
  shows "interfaceMethodWrapper prog t obj =
     Inr (length (funcs prog),
          prog\<lparr>funcs := funcs prog @ [interfaceWrapperFunction t obj],
               ifaceMethodWrappers := (ifaceMethodWrappers prog)(obj \<mapsto> length (funcs prog))\<rparr>)"
proof -
  let ?fn2 = "\<lparr>name = fname obj, fmethod = None, object = Some obj,
               FSignature = ftype obj, Synthetic = InterfaceMethodWrapperFor t obj,
               Params = Parameter ''recv'' t # formalParams (ftype obj),
               FreeVars = [], Locals = [], Blocks = [[]],
               currentBlock = Some 0, needsMethods = []\<rparr>"
  have o: "openAt ?fn2 0" by (simp add: openAt_def)
  have tc: "emitTailCall ?fn2 (Parameter ''recv'' t) (Some obj) (formalParams (ftype obj)) =
      Inr (interfaceWrapperFunction t obj)"
    by (simp add: emitTailCall_open [OF o] appendInstrs_def interfaceWrapperFunction_def)
  have fin: "interfaceWrapperFunction t obj\<lparr>currentBlock := None\<rparr> = interfaceWrapperFunction t obj"
    by (simp add: interfaceWrapperFunction_def)
  show ?thesis
    using assms
    by (simp add: interfaceMethodWrapper_def Let_def split_def createParams_eq addParam_def
        startBody_def tc fin newFunction_def finishBody_def)
qed

text \<open>
  C6.  A request for a method object that has a wrapper in the table returns that
  wrapper and leaves the program as it is.  A request for one that has none builds the
  wrapper worded above (one abstract call on the leading receiver parameter, then the
  tail return), puts it in the arena and enters it in the table under the method object
  alone; the only failure is a variadic signature with no parameter.  So after any
  successful request, a request for the same method object, through whatever receiver
  type, returns the identical function and builds nothing.
\<close>

theorem interfaceMethodWrapper_once:
  "(case ifaceMethodWrappers prog obj of
      Some fn \<Rightarrow> interfaceMethodWrapper prog t obj = Inr (fn, prog)
    | None \<Rightarrow>
        if IsVariadic (ftype obj) \<and> sigParams (ftype obj) = []
        then interfaceMethodWrapper prog t obj = Inl NilDereference
        else interfaceMethodWrapper prog t obj =
          Inr (length (funcs prog),
               prog\<lparr>funcs := funcs prog @ [interfaceWrapperFunction t obj],
                    ifaceMethodWrappers :=
                      (ifaceMethodWrappers prog)(obj \<mapsto> length (funcs prog))\<rparr>)) \<and>
   (\<forall>fn prog1 t'. interfaceMethodWrapper prog t obj = Inr (fn, prog1) \<longrightarrow>
      interfaceMethodWrapper prog1 t' obj = Inr (fn, prog1))"
proof (cases "ifaceMethodWrappers prog obj")
  case (Some fn)
  then show ?thesis by (simp add: interfaceMethodWrapper_def)
next
  case None
  show ?thesis
  proof (cases "IsVariadic (ftype obj) \<and> sigParams (ftype obj) = []")
    case True
    then show ?thesis using None
      by (simp add: interfaceMethodWrapper_def Let_def split_def createParams_eq addParam_def
          startBody_def)
  next
    case False
    show ?thesis
      using None False interfaceMethodWrapper_new [OF None False, of t]
      by (auto simp: interfaceMethodWrapper_def)
  qed
qed


theorem interfaceMethodWrapper_once_witness:
  "interfaceMethodWrapper emptyProgram exI exIf =
     Inr (0, emptyProgram\<lparr>funcs := [interfaceWrapperFunction exI exIf],
                          ifaceMethodWrappers := [exIf \<mapsto> 0]\<rparr>) \<and>
   interfaceMethodWrapper
       (emptyProgram\<lparr>funcs := [interfaceWrapperFunction exI exIf],
                     ifaceMethodWrappers := [exIf \<mapsto> 0]\<rparr>) exJ exIf =
     Inr (0, emptyProgram\<lparr>funcs := [interfaceWrapperFunction exI exIf],
                          ifaceMethodWrappers := [exIf \<mapsto> 0]\<rparr>) \<and>
   Blocks (interfaceWrapperFunction exI exIf) =
     [[Def (Call (Parameter ''recv'' exI) (Some exIf) [] (Tuple [])), Return []]]"
proof -
  have nv: "\<not> IsVariadic (ftype exIf)" by (simp add: exIf_def)
  have e: "ifaceMethodWrappers emptyProgram exIf = None" "funcs emptyProgram = []"
    by (simp_all add: emptyProgram_def)
  have b: "Blocks (interfaceWrapperFunction exI exIf) =
     [[Def (Call (Parameter ''recv'' exI) (Some exIf) [] (Tuple [])), Return []]]"
    by (simp add: interfaceWrapperFunction_def exIf_def tailCallInstrs_def tailCallValue_def
        formalParams_def)
  have m: "(ifaceMethodWrappers emptyProgram)(exIf \<mapsto> 0) = [exIf \<mapsto> 0]"
    by (simp add: emptyProgram_def)
  show ?thesis
    using interfaceMethodWrapper_once [where prog = emptyProgram and obj = exIf and t = exI]
      nv e b m
    by simp
qed


subsection \<open>The promotion wrapper\<close>

lemma formalParams_recv [simp]:
  "formalParams \<lparr>sigRecv = r, sigParams = sigParams s, sigResults = sigResults s,
                  IsVariadic = IsVariadic s\<rparr> = formalParams s"
  by (simp add: formalParams_def)

lemma openAt_wrapperEntry: "openAt (wrapperEntry t meth) 0"
  by (simp add: openAt_def wrapperEntry_def)

lemma wrapperReceiver_eq:
  "wrapperReceiver t meth =
     (if IsVariadic (ftype (Obj meth)) \<and> sigParams (ftype (Obj meth)) = [] then Inl NilDereference
      else if Index meth = [] then Inl IndexOutOfRange
      else bindE (selectionSteps (last (wrapperBase t)) (butlast (Index meth))) (\<lambda>steps.
             Inr (last (last (wrapperBase t) # concat steps),
                  appendInstrs (wrapperEntry t meth) 0
                    (map Def (tl (wrapperBase t) @ concat steps)))))"
proof -
  let ?old = "ftype (Obj meth)"
  let ?sig = "\<lparr>sigRecv = Some (''recv'', t), sigParams = sigParams ?old,
                 sigResults = sigResults ?old, IsVariadic = IsVariadic ?old\<rparr>"
  let ?fn = "\<lparr>name = fname (Obj meth), fmethod = Some meth, object = None, FSignature = ?sig,
                Synthetic = WrapperFor (Obj meth), Params = [], FreeVars = [], Locals = [],
                Blocks = [], currentBlock = None, needsMethods = []\<rparr>"
  let ?fn1 = "(wrapperEntry t meth)\<lparr>Params := [Parameter ''recv'' t]\<rparr>"
  have sp: "addSpilledParam (startBody ?fn) (''recv'', t) = Inr ?fn1"
    by (simp add: addSpilledParam_def addParamObj_def addParam_def startBody_def emit_def
        wrapperEntry_def spilledReceiver_def Let_def)
  have cp: "createParams ?fn1 =
      (if IsVariadic ?old \<and> sigParams ?old = [] then Inl NilDereference
       else Inr (wrapperEntry t meth))"
    by (simp add: createParams_eq wrapperEntry_def)
  have unf: "wrapperReceiver t meth =
      bindE (createParams ?fn1) (\<lambda>fn2.
         bindE (case Locals fn2 of [] \<Rightarrow> Inl IndexOutOfRange | spill # ls \<Rightarrow> Inr spill) (\<lambda>v.
         bindE (if isPointer t then emitLoad fn2 v else Inr (v, fn2)) (\<lambda>(v1, fn3).
           case Index meth of
             [] \<Rightarrow> Inl IndexOutOfRange
           | i # is \<Rightarrow> emitImplicitSelections fn3 v1 (butlast (Index meth)))))"
    unfolding wrapperReceiver_def Let_def sp by simp
  show ?thesis
  proof (cases "IsVariadic ?old \<and> sigParams ?old = []")
    case True
    then show ?thesis unfolding unf cp by simp
  next
    case nv: False
    have loc: "Locals (wrapperEntry t meth) = [spilledReceiver t]"
      by (simp add: wrapperEntry_def)
    show ?thesis
    proof (cases "Index meth")
      case Nil
      then show ?thesis unfolding unf cp using nv
        by (simp add: loc emitLoad_open [OF openAt_wrapperEntry] split: if_splits)
    next
      case (Cons i rest)
      let ?base = "last (wrapperBase t)"
      let ?f3 = "appendInstrs (wrapperEntry t meth) 0 (map Def (tl (wrapperBase t)))"
      have o3: "openAt ?f3 0" by (simp add: openAt_wrapperEntry)
      have ne: "Index meth \<noteq> []" using Cons by simp
      have cp': "createParams ?fn1 = Inr (wrapperEntry t meth)"
        using nv cp by simp
      have ld: "(if isPointer t then emitLoad (wrapperEntry t meth) (spilledReceiver t)
                 else Inr (spilledReceiver t, wrapperEntry t meth)) = Inr (?base, ?f3)"
        by (simp add: emitLoad_open [OF openAt_wrapperEntry] wrapperBase_def spilledReceiver_def)
      have step: "wrapperReceiver t meth = emitImplicitSelections ?f3 ?base (butlast (Index meth))"
        unfolding unf cp' by (simp only: bindE_Inr loc list.case ld prod.case Cons)
      show ?thesis
      proof (cases "selectionSteps ?base (butlast (Index meth))")
        case (Inl e)
        then show ?thesis
          using emitImplicitSelections_steps [OF o3, of ?base "butlast (Index meth)"] nv ne
          unfolding step by auto
      next
        case (Inr steps)
        then show ?thesis
          using emitImplicitSelections_steps [OF o3, of ?base "butlast (Index meth)"] nv ne
          unfolding step by auto
      qed
    qed
  qed
qed


lemma finishBody_closed [simp]: "finishBody (f\<lparr>currentBlock := None\<rparr>) = finishBody f"
  by (simp add: finishBody_def)

lemma wrapperCall_eq:
  assumes "openAt fn b" and "Params fn = recv # formals"
    and "sigRecv (ftype (Obj meth)) = Some r"
  shows "wrapperCall prog meth v fn =
     (if isInterface (Underlying (snd r))
      then Inr (newFunction prog (finishBody (appendInstrs fn b
                  (abstractCallInstrs (sigResults (FSignature fn)) (Obj meth) v formals))))
      else case concreteMethods prog (Obj meth) of
             None \<Rightarrow> Inl (NoConcreteMethod (Obj meth))
           | Some p \<Rightarrow>
               Inr (newFunction prog (finishBody (appendInstrs fn b
                      (directCallInstrs (sigResults (FSignature fn)) (functionValue prog p)
                         (\<not> isPointer (snd r)) v formals)))))"
proof -
  have ld: "emitLoad fn v = Inr (loadOf v, appendInstrs fn b [Def (loadOf v)])"
    using assms(1) by (simp add: emitLoad_open loadOf_def)
  have o1: "openAt (appendInstrs fn b [Def (loadOf v)]) b"
    using assms(1) by simp
  have rt: "recvType (Obj meth) = Inr (snd r)"
    using assms(3) by (simp add: recvType_def)
  show ?thesis
  proof (cases "isInterface (Underlying (snd r))")
    case True
    then show ?thesis
      using assms(2)
      by (simp add: wrapperCall_def rt ld emitTailCall_open [OF o1] abstractCallInstrs_def)
  next
    case concrete: False
    show ?thesis
    proof (cases "concreteMethods prog (Obj meth)")
      case None
      then show ?thesis using concrete
        by (simp add: wrapperCall_def rt ld concreteMethod_def)
    next
      case (Some p)
      show ?thesis
      proof (cases "isPointer (snd r)")
        case True
        then show ?thesis using concrete Some assms(2)
          by (simp add: wrapperCall_def rt concreteMethod_def emitTailCall_open [OF assms(1)]
              directCallInstrs_def)
      next
        case False
        then show ?thesis using concrete Some assms(2)
          by (simp add: wrapperCall_def rt ld concreteMethod_def emitTailCall_open [OF o1]
              directCallInstrs_def)
      qed
    qed
  qed
qed

lemma wrapperReceiver_result:
  assumes "wrapperReceiver t meth = Inr (v, fn)"
  shows "\<exists>is. fn = appendInstrs (wrapperEntry t meth) 0 is"
  using assms unfolding wrapperReceiver_eq
  by (auto split: if_splits sum.splits simp: bindE_def)

lemma makeWrapper_after_walk:
  assumes "wrapperReceiver t meth = Inr (v, fn)"
    and "sigRecv (ftype (Obj meth)) = Some r"
  shows "makeWrapper prog t meth =
     (if isInterface (Underlying (snd r))
      then Inr (newFunction prog (finishBody (appendInstrs fn 0
                  (abstractCallInstrs (sigResults (ftype (Obj meth))) (Obj meth) v
                     (formalParams (ftype (Obj meth)))))))
      else case concreteMethods prog (Obj meth) of
             None \<Rightarrow> Inl (NoConcreteMethod (Obj meth))
           | Some p \<Rightarrow>
               Inr (newFunction prog (finishBody (appendInstrs fn 0
                      (directCallInstrs (sigResults (ftype (Obj meth))) (functionValue prog p)
                         (\<not> isPointer (snd r)) v (formalParams (ftype (Obj meth))))))))"
proof -
  from wrapperReceiver_result [OF assms(1)] obtain "is"
    where fn: "fn = appendInstrs (wrapperEntry t meth) 0 is" by blast
  have o: "openAt fn 0" by (simp add: fn openAt_wrapperEntry)
  have ps: "Params fn = Parameter ''recv'' t # formalParams (ftype (Obj meth))"
    by (simp add: fn wrapperEntry_def)
  have sg: "sigResults (FSignature fn) = sigResults (ftype (Obj meth))"
    by (simp add: fn wrapperEntry_def)
  show ?thesis
    using wrapperCall_eq [OF o ps assms(2), of prog v, unfolded sg]
    by (simp add: makeWrapper_def assms(1))
qed

lemma Synthetic_appendInstrs [simp]: "Synthetic (appendInstrs f b is) = Synthetic f"
  by (simp add: appendInstrs_def)

lemma fmethod_appendInstrs [simp]: "fmethod (appendInstrs f b is) = fmethod f"
  by (simp add: appendInstrs_def)

lemma makeWrapper_built:
  assumes "makeWrapper prog t meth = Inr (fn, prog')"
  shows "promotionWrapperBuilt prog meth fn prog'"
proof -
  from assms obtain v fn1 where wr: "wrapperReceiver t meth = Inr (v, fn1)"
    by (cases "wrapperReceiver t meth") (auto simp: makeWrapper_def)
  from wrapperReceiver_result [OF wr] obtain "is"
    where fn1: "fn1 = appendInstrs (wrapperEntry t meth) 0 is" by blast
  have call: "wrapperCall prog meth v fn1 = Inr (fn, prog')"
    using assms by (simp add: makeWrapper_def wr)
  show ?thesis
  proof (cases "sigRecv (ftype (Obj meth))")
    case None
    then show ?thesis using call by (simp add: wrapperCall_def recvType_def)
  next
    case (Some r)
    have o: "openAt fn1 0" by (simp add: fn1 openAt_wrapperEntry)
    have ps: "Params fn1 = Parameter ''recv'' t # formalParams (ftype (Obj meth))"
      by (simp add: fn1 wrapperEntry_def)
    have syn: "Synthetic fn1 = WrapperFor (Obj meth)" "fmethod fn1 = Some meth"
      by (simp_all add: fn1 wrapperEntry_def)
    show ?thesis
      using call syn unfolding wrapperCall_eq [OF o ps Some]
      by (auto simp: finishBody_def newFunction_def promotionWrapperBuilt_def
          split: if_splits option.splits)
  qed
qed

lemma findMethod_cases:
  assumes "sigRecv (ftype (Obj meth)) = Some r"
  shows "findMethod prog meth =
      (if 1 < length (Index meth) \<or> (\<not> isPointer (snd r) \<and> isPointer (Recv meth))
       then makeWrapper prog (Recv meth) meth
       else if isInterface (Underlying (Recv meth))
       then interfaceMethodWrapper prog (Recv meth) (Obj meth)
       else case concreteMethods prog (Obj meth) of
              None \<Rightarrow> Inl (NoConcreteMethod (Obj meth))
            | Some fn \<Rightarrow> Inr (fn, prog)) \<and>
    (\<forall>fn prog'. findMethod prog meth = Inr (fn, prog') \<longrightarrow>
       promotionWrapperBuilt prog meth fn prog' =
         (1 < length (Index meth) \<or> (\<not> isPointer (snd r) \<and> isPointer (Recv meth))))"
proof -
  let ?wrap = "1 < length (Index meth) \<or> (\<not> isPointer (snd r) \<and> isPointer (Recv meth))"
  have eq: "findMethod prog meth =
      (if ?wrap then makeWrapper prog (Recv meth) meth
       else if isInterface (Underlying (Recv meth))
       then interfaceMethodWrapper prog (Recv meth) (Obj meth)
       else case concreteMethods prog (Obj meth) of
              None \<Rightarrow> Inl (NoConcreteMethod (Obj meth))
            | Some fn \<Rightarrow> Inr (fn, prog))"
    using assms
    by (simp add: findMethod_def recvType_def concreteMethod_def Let_def split: option.splits)
  have built: "promotionWrapperBuilt prog meth fn prog' = ?wrap"
    if res: "findMethod prog meth = Inr (fn, prog')" for fn prog'
  proof (cases ?wrap)
    case True
    have "makeWrapper prog (Recv meth) meth = Inr (fn, prog')"
      using res unfolding eq by (simp only: True if_True)
    from makeWrapper_built [OF this] True show ?thesis by simp
  next
    case nowrap: False
    show ?thesis
    proof (cases "isInterface (Underlying (Recv meth))")
      case True
      have im: "interfaceMethodWrapper prog (Recv meth) (Obj meth) = Inr (fn, prog')"
        using res unfolding eq by (simp only: nowrap True if_True if_False)
      have "\<not> promotionWrapperBuilt prog meth fn prog'"
      proof (cases "ifaceMethodWrappers prog (Obj meth)")
        case (Some p)
        then have "prog' = prog" using im by (simp add: interfaceMethodWrapper_def)
        then show ?thesis by (simp add: promotionWrapperBuilt_def)
      next
        case None
        show ?thesis
        proof (cases "IsVariadic (ftype (Obj meth)) \<and> sigParams (ftype (Obj meth)) = []")
          case True
          then have "interfaceMethodWrapper prog (Recv meth) (Obj meth) = Inl NilDereference"
            using None
            by (simp add: interfaceMethodWrapper_def Let_def split_def createParams_eq
                addParam_def startBody_def)
          then show ?thesis using im by simp
        next
          case False
          from interfaceMethodWrapper_new [OF None False, of "Recv meth"] im
          have "fn = length (funcs prog)"
            and "funcs prog' = funcs prog @ [interfaceWrapperFunction (Recv meth) (Obj meth)]"
            by auto
          then show ?thesis
            by (simp add: promotionWrapperBuilt_def interfaceWrapperFunction_def)
        qed
      qed
      then show ?thesis using nowrap by simp
    next
      case False
      have "(case concreteMethods prog (Obj meth) of
              None \<Rightarrow> Inl (NoConcreteMethod (Obj meth))
            | Some fn \<Rightarrow> Inr (fn, prog)) = Inr (fn, prog')"
        using res unfolding eq by (simp only: nowrap False if_False)
      then have "prog' = prog" by (cases "concreteMethods prog (Obj meth)") simp_all
      then show ?thesis using nowrap by (simp add: promotionWrapperBuilt_def)
    qed
  qed
  show ?thesis using eq built by blast
qed



lemma Type_spilledReceiver [simp]: "Type (spilledReceiver t) = Pointer t"
  by (simp add: spilledReceiver_def)

lemma exSelA_walk: "wrapperReceiver exA exSelA = Inr (exArrivedC, exWalkA)"
proof -
  have nA: "\<not> isPointer exA" by (simp add: isPointer_def exA_def)
  have nB: "\<not> isPointer exB" by (simp add: isPointer_def exB_def)
  have s1: "selectedField (spilledReceiver exA) 0 = Inr exB"
    by (simp add: selectedField_def exA_def)
  have s2: "selectedField (FieldAddr (spilledReceiver exA) 0 (Pointer exB)) 0 = Inr (Pointer exC)"
    by (simp add: selectedField_def exB_def)
  have steps: "selectionSteps (spilledReceiver exA) [0, 0] =
      Inr [[FieldAddr (spilledReceiver exA) 0 (Pointer exB)],
           [FieldAddr (FieldAddr (spilledReceiver exA) 0 (Pointer exB)) 0 (Pointer (Pointer exC)),
            exArrivedC]]"
    by (simp add: s1 s2 selectionStep_def nB exArrivedC_def)
  have idx: "Index exSelA = [0, 0, 0]" "ftype (Obj exSelA) = ftype exCf"
    by (simp_all add: exSelA_def)
  have nv: "\<not> IsVariadic (ftype exCf)" by (simp add: exCf_def)
  show ?thesis
    by (simp add: wrapperReceiver_eq idx nv wrapperBase_def nA steps exWalkA_def
        del: selectionSteps.simps)
qed

lemma exSelA_wrapper:
  "makeWrapper exProgram exA exSelA =
     Inr (1, exProgram\<lparr>funcs := [exFnCf,
              finishBody (appendInstrs exWalkA 0
                [Def (Call (functionValue exProgram 0) None [exArrivedC] (Tuple [])),
                 Return []])]\<rparr>)"
proof -
  have r: "sigRecv (ftype (Obj exSelA)) = Some (''c'', Pointer exC)"
    by (simp add: exSelA_def exCf_def)
  show ?thesis
    using makeWrapper_after_walk [OF exSelA_walk r, of exProgram]
    by (simp add: exSelA_def exCf_def exProgram_def newFunction_def directCallInstrs_def
        tailCallInstrs_def tailCallValue_def formalParams_def)
qed

lemma exSelAI_walk:
  "wrapperReceiver exAI exSelAI =
     Inr (exArrivedI, appendInstrs (wrapperEntry exAI exSelAI) 0 [Def exArrivedI])"
proof -
  have nA: "\<not> isPointer exAI" by (simp add: isPointer_def exAI_def)
  have nI: "\<not> isPointer exI" by (simp add: isPointer_def exI_def)
  have s1: "selectedField (spilledReceiver exAI) 0 = Inr exI"
    by (simp add: selectedField_def exAI_def)
  have steps: "selectionSteps (spilledReceiver exAI) [0] = Inr [[exArrivedI]]"
    by (simp add: s1 selectionStep_def nI exArrivedI_def)
  have idx: "Index exSelAI = [0, 0]" "ftype (Obj exSelAI) = ftype exIf"
    by (simp_all add: exSelAI_def)
  have nv: "\<not> IsVariadic (ftype exIf)" by (simp add: exIf_def)
  show ?thesis
    by (simp add: wrapperReceiver_eq idx nv wrapperBase_def nA steps
        del: selectionSteps.simps)
qed

text \<open>
  C3, as amended.  In every promotion/indirection wrapper the walk arrives at an address
  \<open>v\<close>.  If the target method is concrete, a load of \<open>v\<close> is emitted first exactly when
  the method declares a value receiver, and then a direct call to the method's existing
  function, its first argument the loaded value (value receiver) or \<open>v\<close> itself (pointer
  receiver); a concrete method without a function is a panic.  If the target method is
  abstract, a load of \<open>v\<close> is emitted as well, and the abstract call is dispatched on the
  loaded interface value, not on \<open>v\<close>.  In both cases the wrapper's remaining formal
  parameters follow unchanged, the call is a tail call, and the finished function is a
  new function of the program.
\<close>

theorem makeWrapper_call:
  assumes "wrapperReceiver t meth = Inr (v, fn)"
    and "sigRecv (ftype (Obj meth)) = Some r"
  shows "makeWrapper prog t meth =
     (if isInterface (Underlying (snd r))
      then Inr (newFunction prog (finishBody (appendInstrs fn 0
                  (abstractCallInstrs (sigResults (ftype (Obj meth))) (Obj meth) v
                     (formalParams (ftype (Obj meth)))))))
      else case concreteMethods prog (Obj meth) of
             None \<Rightarrow> Inl (NoConcreteMethod (Obj meth))
           | Some p \<Rightarrow>
               Inr (newFunction prog (finishBody (appendInstrs fn 0
                      (directCallInstrs (sigResults (ftype (Obj meth))) (functionValue prog p)
                         (\<not> isPointer (snd r)) v (formalParams (ftype (Obj meth))))))))"
  using assms by (rule makeWrapper_after_walk)

theorem makeWrapper_call_witness:
  "wrapperReceiver exA exSelA = Inr (exArrivedC, exWalkA) \<and>
   sigRecv (ftype (Obj exSelA)) = Some (''c'', Pointer exC) \<and>
   makeWrapper exProgram exA exSelA =
     Inr (1, exProgram\<lparr>funcs := [exFnCf,
              finishBody (appendInstrs exWalkA 0
                [Def (Call (functionValue exProgram 0) None [exArrivedC] (Tuple [])),
                 Return []])]\<rparr>)"
proof -
  have r: "sigRecv (ftype (Obj exSelA)) = Some (''c'', Pointer exC)"
    by (simp add: exSelA_def exCf_def)
  show ?thesis
    using makeWrapper_call [OF exSelA_walk r, of exProgram] exSelA_walk r
    by (simp add: exSelA_def exCf_def exProgram_def newFunction_def directCallInstrs_def
        tailCallInstrs_def tailCallValue_def formalParams_def)
qed

text \<open>
  The claim as stated fails for an abstract method: with \<^verbatim>\<open>type AI struct { I }\<close> the
  walk arrives at the address of the field \<^verbatim>\<open>I\<close>, and the wrapper loads the interface
  value from it and dispatches the call on the loaded value; the body with the call on
  the arrived-at value itself is not what is built.
\<close>

theorem makeWrapper_call_counterexample:
  "wrapperReceiver exAI exSelAI =
     Inr (exArrivedI, appendInstrs (wrapperEntry exAI exSelAI) 0 [Def exArrivedI]) \<and>
   makeWrapper emptyProgram exAI exSelAI =
     Inr (0, emptyProgram\<lparr>funcs :=
       [finishBody (appendInstrs (wrapperEntry exAI exSelAI) 0
          [Def exArrivedI,
           Def (UnOp MUL exArrivedI exI),
           Def (Call (UnOp MUL exArrivedI exI) (Some exIf) [] (Tuple [])),
           Return []])]\<rparr>) \<and>
   makeWrapper emptyProgram exAI exSelAI \<noteq>
     Inr (0, emptyProgram\<lparr>funcs :=
       [finishBody (appendInstrs (wrapperEntry exAI exSelAI) 0
          [Def exArrivedI,
           Def (Call exArrivedI (Some exIf) [] (Tuple [])),
           Return []])]\<rparr>)"
proof -
  have r: "sigRecv (ftype (Obj exSelAI)) = Some ([], exI)"
    by (simp add: exSelAI_def exIf_def)
  have i: "isInterface (Underlying exI)" by (simp add: exI_def)
  have ty: "deref (Type exArrivedI) = exI" by (simp add: exArrivedI_def)
  have m: "makeWrapper emptyProgram exAI exSelAI =
     Inr (0, emptyProgram\<lparr>funcs :=
       [finishBody (appendInstrs (wrapperEntry exAI exSelAI) 0
          [Def exArrivedI,
           Def (UnOp MUL exArrivedI exI),
           Def (Call (UnOp MUL exArrivedI exI) (Some exIf) [] (Tuple [])),
           Return []])]\<rparr>)"
    using makeWrapper_after_walk [OF exSelAI_walk r, of emptyProgram] i
    by (simp add: exSelAI_def exIf_def emptyProgram_def newFunction_def abstractCallInstrs_def
        tailCallInstrs_def tailCallValue_def formalParams_def loadOf_def ty)
  have d: "Blocks (finishBody (appendInstrs (wrapperEntry exAI exSelAI) 0
          [Def exArrivedI,
           Def (UnOp MUL exArrivedI exI),
           Def (Call (UnOp MUL exArrivedI exI) (Some exIf) [] (Tuple [])),
           Return []])) \<noteq>
        Blocks (finishBody (appendInstrs (wrapperEntry exAI exSelAI) 0
          [Def exArrivedI,
           Def (Call exArrivedI (Some exIf) [] (Tuple [])),
           Return []]))"
    by (simp add: finishBody_def appendInstrs_def wrapperEntry_def)
  have ne: "emptyProgram\<lparr>funcs := [f]\<rparr> \<noteq> emptyProgram\<lparr>funcs := [g]\<rparr>"
    if "Blocks f \<noteq> Blocks g" for f g
  proof
    assume "emptyProgram\<lparr>funcs := [f]\<rparr> = emptyProgram\<lparr>funcs := [g]\<rparr>"
    then have "funcs (emptyProgram\<lparr>funcs := [f]\<rparr>) = funcs (emptyProgram\<lparr>funcs := [g]\<rparr>)"
      by (rule arg_cong)
    then show False using that by simp
  qed
  show ?thesis
    unfolding m using exSelAI_walk ne [OF d] by simp
qed


text \<open>
  C1, as amended.  For every selection whose method has a receiver: a promotion or
  indirection wrapper is synthesized if and only if the embedding-index path is longer
  than 1, or the method declares a value receiver while the selection's receiver type is
  a pointer (the one direction of differing addressing modes that the code tests);
  otherwise an interface receiver type yields the interface-method wrapper, and any
  remaining case returns the pre-existing concrete function and leaves the program as it
  is, the absence of that function being a panic.
\<close>

theorem findMethod_resolution:
  assumes "sigRecv (ftype (Obj meth)) = Some r"
  shows "findMethod prog meth =
      (if 1 < length (Index meth) \<or> (\<not> isPointer (snd r) \<and> isPointer (Recv meth))
       then makeWrapper prog (Recv meth) meth
       else if isInterface (Underlying (Recv meth))
       then interfaceMethodWrapper prog (Recv meth) (Obj meth)
       else case concreteMethods prog (Obj meth) of
              None \<Rightarrow> Inl (NoConcreteMethod (Obj meth))
            | Some fn \<Rightarrow> Inr (fn, prog)) \<and>
    (\<forall>fn prog'. findMethod prog meth = Inr (fn, prog') \<longrightarrow>
       promotionWrapperBuilt prog meth fn prog' =
         (1 < length (Index meth) \<or> (\<not> isPointer (snd r) \<and> isPointer (Recv meth))))"
  using assms by (rule findMethod_cases)

lemma exSelPC_concrete: "findMethod exProgram exSelPC = Inr (0, exProgram)"
  by (simp add: findMethod_def recvType_def concreteMethod_def exSelPC_def exCf_def
      exProgram_def exC_def Let_def)

theorem findMethod_resolution_witness:
  "sigRecv (ftype (Obj exSelA)) = Some (''c'', Pointer exC) \<and>
   findMethod exProgram exSelA = makeWrapper exProgram exA exSelA \<and>
   promotionWrapperBuilt exProgram exSelA 1
     (exProgram\<lparr>funcs := [exFnCf,
              finishBody (appendInstrs exWalkA 0
                [Def (Call (functionValue exProgram 0) None [exArrivedC] (Tuple [])),
                 Return []])]\<rparr>) \<and>
   sigRecv (ftype (Obj exSelPC)) = Some (''c'', Pointer exC) \<and>
   findMethod exProgram exSelPC = Inr (0, exProgram) \<and>
   \<not> promotionWrapperBuilt exProgram exSelPC 0 exProgram"
proof -
  have r: "sigRecv (ftype (Obj exSelA)) = Some (''c'', Pointer exC)"
    by (simp add: exSelA_def exCf_def)
  have r': "sigRecv (ftype (Obj exSelPC)) = Some (''c'', Pointer exC)"
    by (simp add: exSelPC_def exCf_def)
  have ix: "Index exSelA = [0, 0, 0]" "Recv exSelA = exA"
    "Index exSelPC = [0]" "Recv exSelPC = Pointer exC"
    by (simp_all add: exSelA_def exSelPC_def)
  show ?thesis
    using findMethod_resolution [OF r, of exProgram] findMethod_resolution [OF r', of exProgram]
      r r' exSelA_wrapper exSelPC_concrete
    by (simp add: ix)
qed

text \<open>
  The claim as stated fails when the addressing modes differ the other way: \<^verbatim>\<open>f\<close>,
  declared on \<^verbatim>\<open>*C\<close>, selected on the value type \<^verbatim>\<open>C\<close> with a path of length 1 is
  resolved to the pre-existing concrete function, and no wrapper is synthesized.
\<close>

theorem findMethod_resolution_counterexample:
  "isPointer (Recv exSelC) \<noteq> isPointer (Pointer exC) \<and>
   sigRecv (ftype (Obj exSelC)) = Some (''c'', Pointer exC) \<and>
   findMethod exProgram exSelC = Inr (0, exProgram) \<and>
   \<not> promotionWrapperBuilt exProgram exSelC 0 exProgram"
  by (simp add: findMethod_def recvType_def concreteMethod_def exSelC_def exCf_def
      exProgram_def exC_def Let_def isPointer_def promotionWrapperBuilt_def)


subsection \<open>Memoization\<close>













end
